theory Spec2Isabelle
  imports Main "HOL-Library.Char_ord" "HOL-Library.List_Lexorder" "HOL-Library.Sublist"
begin

section \<open>Bytes, strings and the library functions the client calls\<close>

text \<open>
  A Go \<open>string\<close> and a \<open>[]byte\<close> are sequences of bytes; both are modelled as
  \<open>char list\<close> (an Isabelle \<open>char\<close> is one byte). Go compares strings bytewise
  and lexicographically, which is the order of \<open>HOL-Library.List_Lexorder\<close> over
  \<open>HOL-Library.Char_ord\<close>. Go's \<open>int\<close> is modelled as \<open>int\<close>: the client prints
  integers and reads them from JSON (where the 64-bit range is checked), it never
  computes with them.
\<close>

type_synonym bytes = string

definition byte :: \<open>char \<Rightarrow> nat\<close> where
  \<open>byte c = of_char c\<close>

definition chr :: \<open>nat \<Rightarrow> char\<close> where
  \<open>chr n = char_of n\<close>

subsection \<open>strconv.Itoa and the \<open>%d\<close> verb of fmt.Sprintf\<close>

fun FormatUint :: \<open>nat \<Rightarrow> string\<close> where
  \<open>FormatUint n =
     (if n < 10 then [chr (48 + n)] else FormatUint (n div 10) @ [chr (48 + n mod 10)])\<close>

declare FormatUint.simps [simp del]

definition Itoa :: \<open>int \<Rightarrow> string\<close> where
  \<open>Itoa i = (if i < 0 then ''-'' @ FormatUint (nat (- i)) else FormatUint (nat i))\<close>

subsection \<open>strings.TrimRight (with a cutset of single-byte characters)\<close>

definition TrimRight :: \<open>string \<Rightarrow> string \<Rightarrow> string\<close> where
  \<open>TrimRight s cutset = rev (dropWhile (\<lambda>c. c \<in> set cutset) (rev s))\<close>

subsection \<open>strings.Join\<close>

fun Join :: \<open>string list \<Rightarrow> string \<Rightarrow> string\<close> where
  \<open>Join [] sep = []\<close>
| \<open>Join [x] sep = x\<close>
| \<open>Join (x # y # ys) sep = x @ sep @ Join (y # ys) sep\<close>

subsection \<open>net/url: Values, QueryEscape, Encode\<close>

text \<open>
  \<open>url.Values\<close> is \<open>map[string][]string\<close>. The map is modelled as an association
  list read through \<open>map_of\<close>; a Go map has no order, and the one function that walks
  it, \<open>Encode\<close>, sorts the keys first. A \<open>nil\<close> map is \<open>None\<close> where an argument
  may be \<open>nil\<close>.
\<close>

type_synonym Values = \<open>(string \<times> string list) list\<close>

definition Values_keys :: \<open>Values \<Rightarrow> string list\<close> where
  \<open>Values_keys q = sort (remdups (map fst q))\<close>

definition Values_len :: \<open>Values \<Rightarrow> nat\<close> where
  \<open>Values_len q = length (Values_keys q)\<close>

definition Values_lookup :: \<open>Values \<Rightarrow> string \<Rightarrow> string list\<close> where
  \<open>Values_lookup q k = (case map_of q k of None \<Rightarrow> [] | Some vs \<Rightarrow> vs)\<close>

text \<open>\<open>v.Set(key, value)\<close>: \<open>v[key] = []string{value}\<close>.\<close>

fun Values_Set :: \<open>Values \<Rightarrow> string \<Rightarrow> string \<Rightarrow> Values\<close> where
  \<open>Values_Set [] k v = [(k, [v])]\<close>
| \<open>Values_Set ((k', vs) # q) k v =
     (if k' = k then (k, [v]) # q else (k', vs) # Values_Set q k v)\<close>

definition isAlnum :: \<open>char \<Rightarrow> bool\<close> where
  \<open>isAlnum c = ((CHR ''a'' \<le> c \<and> c \<le> CHR ''z'') \<or> (CHR ''A'' \<le> c \<and> c \<le> CHR ''Z'')
                 \<or> (CHR ''0'' \<le> c \<and> c \<le> CHR ''9''))\<close>

text \<open>
  \<open>shouldEscape(c, encodeQueryComponent)\<close>: letters and digits are kept, so are the
  marks \<open>- _ . ~\<close>; the reserved characters and everything else are escaped.
\<close>

definition shouldEscape :: \<open>char \<Rightarrow> bool\<close> where
  \<open>shouldEscape c = (\<not> (isAlnum c \<or> c \<in> set ''-_.~''))\<close>

definition upperhex :: \<open>nat \<Rightarrow> char\<close> where
  \<open>upperhex n = ''0123456789ABCDEF'' ! (n mod 16)\<close>

definition escapeByte :: \<open>char \<Rightarrow> string\<close> where
  \<open>escapeByte c =
     (if shouldEscape c then
        (if c = CHR '' '' then ''+''
         else [CHR ''%'', upperhex (byte c div 16), upperhex (byte c mod 16)])
      else [c])\<close>

definition QueryEscape :: \<open>string \<Rightarrow> string\<close> where
  \<open>QueryEscape s = concat (map escapeByte s)\<close>

text \<open>
  \<open>Values.Encode\<close>: the keys sorted, and for each key one \<open>key=value\<close> pair per
  value, both escaped, joined by \<open>&\<close>.
\<close>

definition Values_pairs :: \<open>Values \<Rightarrow> string list\<close> where
  \<open>Values_pairs q =
     concat (map (\<lambda>k. map (\<lambda>v. QueryEscape k @ ''='' @ QueryEscape v) (Values_lookup q k))
                 (Values_keys q))\<close>

definition Values_Encode :: \<open>Values \<Rightarrow> string\<close> where
  \<open>Values_Encode q = Join (Values_pairs q) ''&''\<close>

subsection \<open>unicode/utf8: DecodeRune, DecodeLastRune, EncodeRune\<close>

text \<open>Runes are natural numbers (code points); \<open>RuneError\<close> is U+FFFD.\<close>

definition RuneError :: nat where
  \<open>RuneError = 0xFFFD\<close>

text \<open>
  \<open>utf8.DecodeRune\<close>: the rune at the head of the slice and its width in bytes. The
  first byte selects the length and the range its second byte must lie in (the table
  \<open>first\<close> and \<open>acceptRanges\<close> of the library); an invalid or short encoding is
  \<open>(RuneError, 1)\<close>, the empty slice \<open>(RuneError, 0)\<close>.
\<close>

definition DecodeRune :: \<open>bytes \<Rightarrow> nat \<times> nat\<close> where
  \<open>DecodeRune p =
     (case p of
        [] \<Rightarrow> (RuneError, 0)
      | c0 # _ \<Rightarrow>
          let p0 = byte c0 in
          if p0 < 0x80 then (p0, 1)
          else if p0 < 0xC2 \<or> 0xF4 < p0 then (RuneError, 1)
          else
            let sz = (if p0 < 0xE0 then 2 else if p0 < 0xF0 then 3 else (4::nat));
                lo = (if p0 = 0xE0 then 0xA0 else if p0 = 0xF0 then 0x90 else 0x80);
                hi = (if p0 = 0xED then 0x9F else if p0 = 0xF4 then 0x8F else 0xBF)
            in
            if length p < sz then (RuneError, 1)
            else
              let b1 = byte (p ! 1) in
              if b1 < lo \<or> hi < b1 then (RuneError, 1)
              else if sz \<le> 2 then ((p0 mod 32) * 64 + b1 mod 64, 2)
              else
                let b2 = byte (p ! 2) in
                if b2 < 0x80 \<or> 0xBF < b2 then (RuneError, 1)
                else if sz \<le> 3 then ((p0 mod 16) * 4096 + (b1 mod 64) * 64 + b2 mod 64, 3)
                else
                  let b3 = byte (p ! 3) in
                  if b3 < 0x80 \<or> 0xBF < b3 then (RuneError, 1)
                  else ((p0 mod 8) * 262144 + (b1 mod 64) * 4096 + (b2 mod 64) * 64
                          + b3 mod 64, 4))\<close>

definition RuneStart :: \<open>char \<Rightarrow> bool\<close> where
  \<open>RuneStart c = (byte c div 64 \<noteq> 2)\<close>

text \<open>
  \<open>utf8.DecodeLastRune\<close>: backs up over at most three bytes to the nearest byte that
  can start a rune, decodes from there, and accepts the rune only if it ends where the
  slice ends.
\<close>

definition DecodeLastRune :: \<open>bytes \<Rightarrow> nat \<times> nat\<close> where
  \<open>DecodeLastRune p =
     (let end = length p in
      if end = 0 then (RuneError, 0)
      else
        let r = byte (p ! (end - 1)) in
        if r < 0x80 then (r, 1)
        else
          let lim = end - 4;
              start = (case find (\<lambda>i. RuneStart (p ! i)) (rev [lim ..< end - 1]) of
                         Some i \<Rightarrow> i
                       | None \<Rightarrow> lim - 1);
              rs = DecodeRune (drop start p)
          in if start + snd rs \<noteq> end then (RuneError, 1) else rs)\<close>

definition EncodeRune :: \<open>nat \<Rightarrow> bytes\<close> where
  \<open>EncodeRune r =
     (if r < 0x80 then [chr r]
      else if r < 0x800 then [chr (0xC0 + r div 64), chr (0x80 + r mod 64)]
      else if 0x10FFFF < r \<or> (0xD800 \<le> r \<and> r \<le> 0xDFFF) then [chr 0xEF, chr 0xBF, chr 0xBD]
      else if r < 0x10000 then
        [chr (0xE0 + r div 4096), chr (0x80 + (r div 64) mod 64), chr (0x80 + r mod 64)]
      else
        [chr (0xF0 + r div 262144), chr (0x80 + (r div 4096) mod 64),
         chr (0x80 + (r div 64) mod 64), chr (0x80 + r mod 64)])\<close>

subsection \<open>bytes.TrimSpace\<close>

definition asciiSpace :: \<open>char \<Rightarrow> bool\<close> where
  \<open>asciiSpace c = (byte c \<in> {0x09, 0x0A, 0x0B, 0x0C, 0x0D, 0x20})\<close>

text \<open>\<open>unicode.IsSpace\<close>: the White_Space property.\<close>

definition IsSpace :: \<open>nat \<Rightarrow> bool\<close> where
  \<open>IsSpace r =
     (if r \<le> 0xFF then r \<in> {0x09, 0x0A, 0x0B, 0x0C, 0x0D, 0x20, 0x85, 0xA0}
      else r = 0x1680 \<or> (0x2000 \<le> r \<and> r \<le> 0x200A) \<or> r = 0x2028 \<or> r = 0x2029
           \<or> r = 0x202F \<or> r = 0x205F \<or> r = 0x3000)\<close>

text \<open>
  \<open>bytes.TrimLeftFunc(s, f)\<close>: \<open>s\<close> from the first rune that does not satisfy
  \<open>f\<close> (\<open>indexFunc\<close> walks the runes from the left). The width of a decoded rune is
  at least one, so the rest after it is \<open>drop (wid - 1)\<close> of the tail.
\<close>

fun TrimLeftFunc :: \<open>(nat \<Rightarrow> bool) \<Rightarrow> bytes \<Rightarrow> bytes\<close> where
  \<open>TrimLeftFunc f [] = []\<close>
| \<open>TrimLeftFunc f (c # cs) =
     (let rw = (if 0x80 \<le> byte c then DecodeRune (c # cs) else (byte c, 1)) in
      if \<not> f (fst rw) then c # cs else TrimLeftFunc f (drop (snd rw - 1) cs))\<close>

text \<open>
  \<open>lastIndexFunc(s, f, false)\<close> with \<open>i\<close> the loop variable: the index of the last
  rune that does not satisfy \<open>f\<close>, \<open>None\<close> for \<open>-1\<close>.
\<close>

fun lastIndexFunc :: \<open>(nat \<Rightarrow> bool) \<Rightarrow> bytes \<Rightarrow> nat \<Rightarrow> nat option\<close> where
  \<open>lastIndexFunc f s 0 = None\<close>
| \<open>lastIndexFunc f s (Suc j) =
     (let rs = (if 0x80 \<le> byte (s ! j) then DecodeLastRune (take (Suc j) s) else (byte (s ! j), 1));
          i = j - (snd rs - 1)
      in if \<not> f (fst rs) then Some i else lastIndexFunc f s i)\<close>

definition TrimRightFunc :: \<open>(nat \<Rightarrow> bool) \<Rightarrow> bytes \<Rightarrow> bytes\<close> where
  \<open>TrimRightFunc f s =
     (case lastIndexFunc f s (length s) of
        None \<Rightarrow> []
      | Some i \<Rightarrow>
          if 0x80 \<le> byte (s ! i) then take (i + snd (DecodeRune (drop i s))) s
          else take (i + 1) s)\<close>

definition TrimFunc :: \<open>(nat \<Rightarrow> bool) \<Rightarrow> bytes \<Rightarrow> bytes\<close> where
  \<open>TrimFunc f s = TrimRightFunc f (TrimLeftFunc f s)\<close>

text \<open>
  \<open>bytes.TrimSpace\<close>: a fast path over ASCII from the left and then from the right;
  at the first byte that is not ASCII it hands what is left to
  \<open>TrimFunc(..., unicode.IsSpace)\<close>. \<open>TrimSpace_right\<close> reads the slice reversed.
\<close>

fun TrimSpace_right :: \<open>bytes \<Rightarrow> bytes\<close> where
  \<open>TrimSpace_right [] = []\<close>
| \<open>TrimSpace_right (c # rcs) =
     (if 0x80 \<le> byte c then TrimFunc IsSpace (rev (c # rcs))
      else if asciiSpace c then TrimSpace_right rcs
      else rev (c # rcs))\<close>

fun TrimSpace :: \<open>bytes \<Rightarrow> bytes\<close> where
  \<open>TrimSpace [] = []\<close>
| \<open>TrimSpace (c # cs) =
     (if 0x80 \<le> byte c then TrimFunc IsSpace (c # cs)
      else if asciiSpace c then TrimSpace cs
      else TrimSpace_right (rev (c # cs)))\<close>

section \<open>encoding/json\<close>

text \<open>
  A JSON document as a tree. A number keeps its literal text (the decoder parses it only
  when it knows the Go type it goes into); a string holds its bytes unquoted; an object
  keeps its members in order, repeated keys included.
\<close>

datatype json =
    JNull
  | JBool bool
  | JNumber string
  | JString string
  | JArray \<open>json list\<close>
  | JObject \<open>(string \<times> json) list\<close>

text \<open>
  The errors of the client: its own \<open>APIError\<close> and \<open>fmt.Errorf\<close> values, and the
  errors the libraries return to it.
\<close>

datatype error =
    APIError int string
  | Errorf string
  | SyntaxError
  | UnmarshalTypeError string string
  | UnsupportedTypeError string
  | NewRequestError string
  | TransportError string
  | ReadError string

subsection \<open>Writing JSON text (json.Marshal's encoder)\<close>

definition bs :: char where
  \<open>bs = CHR 0x5C\<close>

definition dq :: char where
  \<open>dq = CHR 0x22\<close>

definition hex :: \<open>nat \<Rightarrow> char\<close> where
  \<open>hex n = ''0123456789abcdef'' ! (n mod 16)\<close>

text \<open>
  \<open>htmlSafeSet\<close>: the ASCII bytes written as they are. json.Marshal escapes HTML, so
  \<open><\<close>, \<open>>\<close> and \<open>&\<close> are not among them.
\<close>

definition htmlSafe :: \<open>char \<Rightarrow> bool\<close> where
  \<open>htmlSafe c = (0x20 \<le> byte c \<and> byte c < 0x80
                  \<and> c \<notin> {dq, bs, CHR ''<'', CHR ''>'', CHR ''&''})\<close>

text \<open>
  \<open>appendString\<close> between its quotes: the short escapes (backslash-b and
  backslash-f are written so since Go 1.22), a six-byte escape u00XX for the other unsafe
  ASCII bytes, the escape ufffd for a byte that is not valid UTF-8, and the escapes u2028
  and u2029 for the line and paragraph separators.
\<close>

fun json_escape :: \<open>bytes \<Rightarrow> bytes\<close> where
  \<open>json_escape [] = []\<close>
| \<open>json_escape (c # cs) =
     (if byte c < 0x80 then
        (if htmlSafe c then [c]
         else if c = bs \<or> c = dq then [bs, c]
         else if byte c = 0x08 then [bs, CHR ''b'']
         else if byte c = 0x0C then [bs, CHR ''f'']
         else if byte c = 0x0A then [bs, CHR ''n'']
         else if byte c = 0x0D then [bs, CHR ''r'']
         else if byte c = 0x09 then [bs, CHR ''t'']
         else [bs, CHR ''u'', CHR ''0'', CHR ''0'', hex (byte c div 16), hex (byte c mod 16)])
        @ json_escape cs
      else
        let rs = DecodeRune (take 4 (c # cs)) in
        if fst rs = RuneError \<and> snd rs = 1 then
          [bs, CHR ''u'', CHR ''f'', CHR ''f'', CHR ''f'', CHR ''d''] @ json_escape cs
        else if fst rs = 0x2028 \<or> fst rs = 0x2029 then
          [bs, CHR ''u'', CHR ''2'', CHR ''0'', CHR ''2'', hex (fst rs mod 16)]
          @ json_escape (drop (snd rs - 1) cs)
        else take (snd rs) (c # cs) @ json_escape (drop (snd rs - 1) cs))\<close>

definition json_quote :: \<open>string \<Rightarrow> bytes\<close> where
  \<open>json_quote s = [dq] @ json_escape s @ [dq]\<close>

fun json_encode :: \<open>json \<Rightarrow> bytes\<close> where
  \<open>json_encode JNull = ''null''\<close>
| \<open>json_encode (JBool b) = (if b then ''true'' else ''false'')\<close>
| \<open>json_encode (JNumber lit) = lit\<close>
| \<open>json_encode (JString s) = json_quote s\<close>
| \<open>json_encode (JArray xs) = ''['' @ Join (map json_encode xs) '','' @ '']''\<close>
| \<open>json_encode (JObject kvs) =
     ''{'' @ Join (map (\<lambda>kv. json_quote (fst kv) @ '':'' @ json_encode (snd kv)) kvs) '','' @ ''}''\<close>

subsection \<open>Reading JSON text (the scanner and the literal decoder of json.Unmarshal)\<close>

definition isDigit :: \<open>char \<Rightarrow> bool\<close> where
  \<open>isDigit c = (CHR ''0'' \<le> c \<and> c \<le> CHR ''9'')\<close>

definition isLower :: \<open>char \<Rightarrow> bool\<close> where
  \<open>isLower c = (CHR ''a'' \<le> c \<and> c \<le> CHR ''z'')\<close>

definition isJSONSpace :: \<open>char \<Rightarrow> bool\<close> where
  \<open>isJSONSpace c = (byte c \<in> {0x20, 0x09, 0x0D, 0x0A})\<close>

definition isNumChar :: \<open>char \<Rightarrow> bool\<close> where
  \<open>isNumChar c = (isDigit c \<or> c \<in> set ''+-.eE'')\<close>

text \<open>The number grammar: an optional minus, an integer part without a leading zero,
  an optional fraction, an optional exponent.\<close>

definition valid_exp :: \<open>string \<Rightarrow> bool\<close> where
  \<open>valid_exp s =
     (case s of
        [] \<Rightarrow> True
      | e # r \<Rightarrow>
          (e = CHR ''e'' \<or> e = CHR ''E'') \<and>
          (let ds = (case r of [] \<Rightarrow> [] | sg # t \<Rightarrow> if sg = CHR ''+'' \<or> sg = CHR ''-'' then t else r)
           in ds \<noteq> [] \<and> list_all isDigit ds))\<close>

definition valid_frac_exp :: \<open>string \<Rightarrow> bool\<close> where
  \<open>valid_frac_exp s =
     (case s of
        [] \<Rightarrow> True
      | c # r \<Rightarrow>
          if c = CHR ''.'' then takeWhile isDigit r \<noteq> [] \<and> valid_exp (dropWhile isDigit r)
          else valid_exp s)\<close>

definition valid_number :: \<open>string \<Rightarrow> bool\<close> where
  \<open>valid_number s =
     (let u = (case s of [] \<Rightarrow> [] | c # r \<Rightarrow> if c = CHR ''-'' then r else s);
          ip = takeWhile isDigit u
      in ip \<noteq> [] \<and> (if hd ip = CHR ''0'' then length ip = 1 else True)
         \<and> valid_frac_exp (dropWhile isDigit u))\<close>

definition literal_value :: \<open>string \<Rightarrow> json option\<close> where
  \<open>literal_value s =
     (if s = ''true'' then Some (JBool True)
      else if s = ''false'' then Some (JBool False)
      else if s = ''null'' then Some JNull
      else None)\<close>

definition hexval :: \<open>char \<Rightarrow> nat option\<close> where
  \<open>hexval c =
     (if isDigit c then Some (byte c - 48)
      else if CHR ''a'' \<le> c \<and> c \<le> CHR ''f'' then Some (byte c - 87)
      else if CHR ''A'' \<le> c \<and> c \<le> CHR ''F'' then Some (byte c - 55)
      else None)\<close>

text \<open>\<open>getu4\<close>: the code unit of a backslash-u escape with four hex digits at the
  head of the slice.\<close>

definition getu4 :: \<open>bytes \<Rightarrow> nat option\<close> where
  \<open>getu4 s =
     (case s of
        b # u # h1 # h2 # h3 # h4 # _ \<Rightarrow>
          if b = bs \<and> u = CHR ''u'' then
            (case (hexval h1, hexval h2, hexval h3, hexval h4) of
               (Some a, Some b, Some c, Some d) \<Rightarrow> Some (a * 4096 + b * 256 + c * 16 + d)
             | _ \<Rightarrow> None)
          else None
      | _ \<Rightarrow> None)\<close>

definition IsSurrogate :: \<open>nat \<Rightarrow> bool\<close> where
  \<open>IsSurrogate r = (0xD800 \<le> r \<and> r < 0xE000)\<close>

text \<open>\<open>utf16.DecodeRune\<close>: the code point of a surrogate pair, U+FFFD for anything
  else.\<close>

definition utf16_DecodeRune :: \<open>nat \<Rightarrow> nat \<Rightarrow> nat\<close> where
  \<open>utf16_DecodeRune r1 r2 =
     (if 0xD800 \<le> r1 \<and> r1 < 0xDC00 \<and> 0xDC00 \<le> r2 \<and> r2 < 0xE000
      then (r1 - 0xD800) * 1024 + (r2 - 0xDC00) + 0x10000
      else RuneError)\<close>

definition simple_escape :: \<open>char \<Rightarrow> char option\<close> where
  \<open>simple_escape e =
     (if e = dq \<or> e = bs \<or> e = CHR ''/'' then Some e
      else if e = CHR ''b'' then Some (chr 0x08)
      else if e = CHR ''f'' then Some (chr 0x0C)
      else if e = CHR ''n'' then Some (chr 0x0A)
      else if e = CHR ''r'' then Some (chr 0x0D)
      else if e = CHR ''t'' then Some (chr 0x09)
      else None)\<close>

datatype token =
    TLBrace | TRBrace | TLBracket | TRBracket | TColon | TComma
  | TScalar json

datatype lexmode = LNormal | LString string | LNumber string | LLiteral string

definition tcons :: \<open>token \<Rightarrow> token list option \<Rightarrow> token list option\<close> where
  \<open>tcons t r = map_option ((#) t) r\<close>

definition punct :: \<open>char \<Rightarrow> token option\<close> where
  \<open>punct c =
     (if c = CHR ''{'' then Some TLBrace
      else if c = CHR ''}'' then Some TRBrace
      else if c = CHR ''['' then Some TLBracket
      else if c = CHR '']'' then Some TRBracket
      else if c = CHR '':'' then Some TColon
      else if c = CHR '','' then Some TComma
      else None)\<close>

text \<open>
  The scanner, cut into tokens. In a string a control byte is a syntax error, an escape
  is decoded (a surrogate that is not the first half of a pair becomes U+FFFD), and a
  byte sequence that is not valid UTF-8 is replaced by U+FFFD, as \<open>unquote\<close> does.
  \<open>None\<close> is a syntax error.
\<close>

definition lexmode_rank :: \<open>lexmode \<Rightarrow> nat\<close> where
  \<open>lexmode_rank m = (case m of LNormal \<Rightarrow> 0 | _ \<Rightarrow> 1)\<close>

function lex :: \<open>lexmode \<Rightarrow> bytes \<Rightarrow> token list option\<close> where
  \<open>lex LNormal [] = Some []\<close>
| \<open>lex LNormal (c # cs) =
     (if isJSONSpace c then lex LNormal cs
      else if c = dq then lex (LString []) cs
      else if c = CHR ''-'' \<or> isDigit c then lex (LNumber [c]) cs
      else if isLower c then lex (LLiteral [c]) cs
      else (case punct c of None \<Rightarrow> None | Some t \<Rightarrow> tcons t (lex LNormal cs)))\<close>
| \<open>lex (LString acc) [] = None\<close>
| \<open>lex (LString acc) (c # cs) =
     (if c = dq then tcons (TScalar (JString acc)) (lex LNormal cs)
      else if c = bs then
        (case cs of
           [] \<Rightarrow> None
         | e # cs' \<Rightarrow>
             if e = CHR ''u'' then
               (case getu4 (c # cs) of
                  None \<Rightarrow> None
                | Some rr \<Rightarrow>
                    if IsSurrogate rr then
                      (case getu4 (drop 4 cs') of
                         None \<Rightarrow> lex (LString (acc @ EncodeRune RuneError)) (drop 4 cs')
                       | Some rr1 \<Rightarrow>
                           if utf16_DecodeRune rr rr1 \<noteq> RuneError
                           then lex (LString (acc @ EncodeRune (utf16_DecodeRune rr rr1)))
                                    (drop 10 cs')
                           else lex (LString (acc @ EncodeRune RuneError)) (drop 4 cs'))
                    else lex (LString (acc @ EncodeRune rr)) (drop 4 cs'))
             else (case simple_escape e of
                     None \<Rightarrow> None
                   | Some x \<Rightarrow> lex (LString (acc @ [x])) cs'))
      else if byte c < 0x20 then None
      else if byte c < 0x80 then lex (LString (acc @ [c])) cs
      else
        let rs = DecodeRune (c # cs)
        in lex (LString (acc @ EncodeRune (fst rs))) (drop (snd rs - 1) cs))\<close>
| \<open>lex (LNumber acc) [] =
     (if valid_number acc then Some [TScalar (JNumber acc)] else None)\<close>
| \<open>lex (LNumber acc) (c # cs) =
     (if isNumChar c then lex (LNumber (acc @ [c])) cs
      else if valid_number acc then tcons (TScalar (JNumber acc)) (lex LNormal (c # cs))
      else None)\<close>
| \<open>lex (LLiteral acc) [] = map_option (\<lambda>j. [TScalar j]) (literal_value acc)\<close>
| \<open>lex (LLiteral acc) (c # cs) =
     (if isLower c then lex (LLiteral (acc @ [c])) cs
      else (case literal_value acc of
              None \<Rightarrow> None
            | Some j \<Rightarrow> tcons (TScalar j) (lex LNormal (c # cs))))\<close>
  by pat_completeness auto
termination
  by (relation \<open>measure (\<lambda>(m, s). 2 * length s + lexmode_rank m)\<close>)
     (auto simp: lexmode_rank_def)

text \<open>
  The tree of a token sequence, built with an explicit stack of the arrays and objects
  that are still open. The scanner allows \<open>maxNestingDepth = 10000\<close> of them.
\<close>

datatype frame =
    FArray \<open>json list\<close>
  | FObject \<open>(string \<times> json) list\<close> \<open>string option\<close>

datatype pstate =
    PValue | PArrayStart | PObjectStart | PKey | PColon | PAfter
  | PDone json

definition maxNestingDepth :: nat where
  \<open>maxNestingDepth = 10000\<close>

text \<open>A value is complete: it is the document, the next element of the open array, or
  the value of the pending key of the open object.\<close>

definition complete :: \<open>json \<Rightarrow> frame list \<Rightarrow> (pstate \<times> frame list) option\<close> where
  \<open>complete v st =
     (case st of
        [] \<Rightarrow> Some (PDone v, [])
      | FArray xs # r \<Rightarrow> Some (PAfter, FArray (xs @ [v]) # r)
      | FObject kvs (Some k) # r \<Rightarrow> Some (PAfter, FObject (kvs @ [(k, v)]) None # r)
      | FObject kvs None # r \<Rightarrow> None)\<close>

definition push :: \<open>pstate \<Rightarrow> frame \<Rightarrow> frame list \<Rightarrow> (pstate \<times> frame list) option\<close> where
  \<open>push ps f st = (if length (f # st) \<le> maxNestingDepth then Some (ps, f # st) else None)\<close>

definition begin_value :: \<open>token \<Rightarrow> frame list \<Rightarrow> (pstate \<times> frame list) option\<close> where
  \<open>begin_value t st =
     (case t of
        TScalar j \<Rightarrow> complete j st
      | TLBracket \<Rightarrow> push PArrayStart (FArray []) st
      | TLBrace \<Rightarrow> push PObjectStart (FObject [] None) st
      | _ \<Rightarrow> None)\<close>

definition close_array :: \<open>frame list \<Rightarrow> (pstate \<times> frame list) option\<close> where
  \<open>close_array st = (case st of FArray xs # r \<Rightarrow> complete (JArray xs) r | _ \<Rightarrow> None)\<close>

definition close_object :: \<open>frame list \<Rightarrow> (pstate \<times> frame list) option\<close> where
  \<open>close_object st =
     (case st of FObject kvs None # r \<Rightarrow> complete (JObject kvs) r | _ \<Rightarrow> None)\<close>

definition begin_key :: \<open>token \<Rightarrow> frame list \<Rightarrow> (pstate \<times> frame list) option\<close> where
  \<open>begin_key t st =
     (case (t, st) of
        (TScalar (JString k), FObject kvs None # r) \<Rightarrow> Some (PColon, FObject kvs (Some k) # r)
      | _ \<Rightarrow> None)\<close>

definition pstep :: \<open>pstate \<times> frame list \<Rightarrow> token \<Rightarrow> (pstate \<times> frame list) option\<close> where
  \<open>pstep s t =
     (case s of (ps, st) \<Rightarrow>
        (case ps of
           PValue \<Rightarrow> begin_value t st
         | PArrayStart \<Rightarrow> if t = TRBracket then close_array st else begin_value t st
         | PObjectStart \<Rightarrow> if t = TRBrace then close_object st else begin_key t st
         | PKey \<Rightarrow> begin_key t st
         | PColon \<Rightarrow> if t = TColon then Some (PValue, st) else None
         | PAfter \<Rightarrow>
             if t = TComma then
               (case st of
                  FArray xs # r \<Rightarrow> Some (PValue, st)
                | FObject kvs None # r \<Rightarrow> Some (PKey, st)
                | _ \<Rightarrow> None)
             else if t = TRBracket then close_array st
             else if t = TRBrace then close_object st
             else None
         | PDone v \<Rightarrow> None))\<close>

fun prun :: \<open>pstate \<times> frame list \<Rightarrow> token list \<Rightarrow> (pstate \<times> frame list) option\<close> where
  \<open>prun s [] = Some s\<close>
| \<open>prun s (t # ts) = (case pstep s t of None \<Rightarrow> None | Some s' \<Rightarrow> prun s' ts)\<close>

text \<open>\<open>None\<close> is the \<open>*json.SyntaxError\<close> of \<open>checkValid\<close>.\<close>

definition json_parse :: \<open>bytes \<Rightarrow> json option\<close> where
  \<open>json_parse data =
     (case lex LNormal data of
        None \<Rightarrow> None
      | Some ts \<Rightarrow>
          (case prun (PValue, []) ts of
             Some (PDone v, []) \<Rightarrow> Some v
           | _ \<Rightarrow> None))\<close>

subsection \<open>Decoding a tree into a Go value (json.Unmarshal after \<open>checkValid\<close>)\<close>

text \<open>What an \<open>UnmarshalTypeError\<close> calls the JSON value it could not store; the
  second argument of the error is the Go type it was meant for, by a short name.\<close>

definition json_kind :: \<open>json \<Rightarrow> string\<close> where
  \<open>json_kind j =
     (case j of
        JNull \<Rightarrow> ''null''
      | JBool b \<Rightarrow> ''bool''
      | JNumber lit \<Rightarrow> ''number''
      | JString s \<Rightarrow> ''string''
      | JArray xs \<Rightarrow> ''array''
      | JObject kvs \<Rightarrow> ''object'')\<close>

text \<open>\<open>strconv.ParseInt(s, 10, 64)\<close> on a JSON number: an optional minus and digits
  only, and a value that fits 64 bits.\<close>

definition digits_value :: \<open>string \<Rightarrow> nat\<close> where
  \<open>digits_value ds = foldl (\<lambda>acc c. acc * 10 + (byte c - 48)) 0 ds\<close>

definition ParseInt :: \<open>string \<Rightarrow> int option\<close> where
  \<open>ParseInt s =
     (let neg = (s \<noteq> [] \<and> hd s = CHR ''-'');
          ds = (if neg then tl s else s);
          n = (if neg then - int (digits_value ds) else int (digits_value ds))
      in if ds \<noteq> [] \<and> list_all isDigit ds \<and> - (2 ^ 63) \<le> n \<and> n < 2 ^ 63
         then Some n else None)\<close>

text \<open>A JSON \<open>null\<close> leaves an \<open>int\<close> or a \<open>string\<close> as it is; a value of another
  kind is an \<open>UnmarshalTypeError\<close> and leaves it as it is, too.\<close>

definition decode_int :: \<open>json \<Rightarrow> int \<Rightarrow> error + int\<close> where
  \<open>decode_int j cur =
     (case j of
        JNull \<Rightarrow> Inr cur
      | JNumber lit \<Rightarrow>
          (case ParseInt lit of
             Some n \<Rightarrow> Inr n
           | None \<Rightarrow> Inl (UnmarshalTypeError (''number '' @ lit) ''int''))
      | _ \<Rightarrow> Inl (UnmarshalTypeError (json_kind j) ''int''))\<close>

definition decode_string :: \<open>json \<Rightarrow> string \<Rightarrow> error + string\<close> where
  \<open>decode_string j cur =
     (case j of
        JNull \<Rightarrow> Inr cur
      | JString s \<Rightarrow> Inr s
      | _ \<Rightarrow> Inl (UnmarshalTypeError (json_kind j) ''string''))\<close>

text \<open>
  \<open>foldName\<close>: the key a member name is compared by when no field has exactly that
  name. ASCII letters become capitals; a rune outside ASCII becomes the smallest rune of
  its case-folding orbit, which is an ASCII letter for U+017F (S) and U+212A (K) only.
  Every other rune outside ASCII folds to a rune outside ASCII, which no field name of
  this client holds; the model keeps such a rune as it is.
\<close>

fun foldName :: \<open>bytes \<Rightarrow> bytes\<close> where
  \<open>foldName [] = []\<close>
| \<open>foldName (c # cs) =
     (if byte c < 0x80 then (if isLower c then chr (byte c - 32) else c) # foldName cs
      else
        let rs = DecodeRune (c # cs) in
        (if fst rs = 0x17F then ''S'' else if fst rs = 0x212A then ''K'' else EncodeRune (fst rs))
        @ foldName (drop (snd rs - 1) cs))\<close>

definition find_field :: \<open>string list \<Rightarrow> string \<Rightarrow> string option\<close> where
  \<open>find_field names key =
     (case find (\<lambda>n. n = key) names of
        Some n \<Rightarrow> Some n
      | None \<Rightarrow> find (\<lambda>n. foldName n = foldName key) names)\<close>

text \<open>
  An object into a struct: member by member, in order. A member that names no field is
  skipped (the decoder does not disallow unknown fields); a member whose value does not
  fit its field leaves the field and is remembered, and the first such error is returned
  once the object has been read.
\<close>

fun decode_members ::
  \<open>(string \<Rightarrow> json \<Rightarrow> 'a \<Rightarrow> error + 'a) \<Rightarrow> string list \<Rightarrow> (string \<times> json) list \<Rightarrow> 'a
     \<Rightarrow> error option \<Rightarrow> error + 'a\<close> where
  \<open>decode_members setf names [] p err = (case err of None \<Rightarrow> Inr p | Some e \<Rightarrow> Inl e)\<close>
| \<open>decode_members setf names (kv # kvs) p err =
     (case find_field names (fst kv) of
        None \<Rightarrow> decode_members setf names kvs p err
      | Some n \<Rightarrow>
          (case setf n (snd kv) p of
             Inl e \<Rightarrow>
               decode_members setf names kvs p (case err of None \<Rightarrow> Some e | Some e0 \<Rightarrow> Some e0)
           | Inr p' \<Rightarrow> decode_members setf names kvs p' err))\<close>

definition decode_struct ::
  \<open>(string \<Rightarrow> json \<Rightarrow> 'a \<Rightarrow> error + 'a) \<Rightarrow> string list \<Rightarrow> string \<Rightarrow> json \<Rightarrow> 'a \<Rightarrow> error + 'a\<close> where
  \<open>decode_struct setf names tyname j p =
     (case j of
        JNull \<Rightarrow> Inr p
      | JObject kvs \<Rightarrow> decode_members setf names kvs p None
      | _ \<Rightarrow> Inl (UnmarshalTypeError (json_kind j) tyname))\<close>

text \<open>
  An array into a slice that was \<open>nil\<close>: every element is decoded into a zero value.
  \<open>null\<close> gives the \<open>nil\<close> slice, which the model does not tell from the empty one.
\<close>

fun decode_elems :: \<open>(json \<Rightarrow> 'a \<Rightarrow> error + 'a) \<Rightarrow> 'a \<Rightarrow> json list \<Rightarrow> error option \<Rightarrow> error + 'a list\<close> where
  \<open>decode_elems dec zero [] err = (case err of None \<Rightarrow> Inr [] | Some e \<Rightarrow> Inl e)\<close>
| \<open>decode_elems dec zero (x # xs) err =
     (case dec x zero of
        Inl e \<Rightarrow> decode_elems dec zero xs (case err of None \<Rightarrow> Some e | Some e0 \<Rightarrow> Some e0)
      | Inr v \<Rightarrow> map_sum id ((#) v) (decode_elems dec zero xs err))\<close>

definition decode_slice ::
  \<open>(json \<Rightarrow> 'a \<Rightarrow> error + 'a) \<Rightarrow> 'a \<Rightarrow> string \<Rightarrow> json \<Rightarrow> 'a list \<Rightarrow> error + 'a list\<close> where
  \<open>decode_slice dec zero tyname j cur =
     (case j of
        JNull \<Rightarrow> Inr []
      | JArray xs \<Rightarrow> decode_elems dec zero xs None
      | _ \<Rightarrow> Inl (UnmarshalTypeError (json_kind j) tyname))\<close>

text \<open>\<open>json.Unmarshal(data, &v)\<close> with the decoder of the type of \<open>v\<close>: the text is
  checked first, and nothing is stored when it is not valid JSON.\<close>

definition Unmarshal :: \<open>(json \<Rightarrow> 'a \<Rightarrow> error + 'a) \<Rightarrow> bytes \<Rightarrow> 'a \<Rightarrow> error + 'a\<close> where
  \<open>Unmarshal dec data v =
     (case json_parse data of None \<Rightarrow> Inl SyntaxError | Some j \<Rightarrow> dec j v)\<close>

section \<open>The client\<close>

subsection \<open>UTM presets and their decoding\<close>

record UTMPreset =
  ID :: int
  Name :: string
  Source :: string
  Medium :: string
  Campaign :: string
  Content :: string
  Term :: string
  CreatedAt :: string
  UpdatedAt :: string

definition UTMPreset_zero :: UTMPreset where
  \<open>UTMPreset_zero =
     \<lparr>ID = 0, Name = [], Source = [], Medium = [], Campaign = [], Content = [], Term = [],
      CreatedAt = [], UpdatedAt = []\<rparr>\<close>

definition UTMPreset_names :: \<open>string list\<close> where
  \<open>UTMPreset_names =
     [''id'', ''name'', ''source'', ''medium'', ''campaign'', ''content'', ''term'',
      ''created_at'', ''updated_at'']\<close>

definition UTMPreset_set :: \<open>string \<Rightarrow> json \<Rightarrow> UTMPreset \<Rightarrow> error + UTMPreset\<close> where
  \<open>UTMPreset_set n v p =
     (if n = ''id'' then map_sum id (\<lambda>x. p\<lparr>ID := x\<rparr>) (decode_int v (ID p))
      else if n = ''name'' then map_sum id (\<lambda>x. p\<lparr>Name := x\<rparr>) (decode_string v (Name p))
      else if n = ''source'' then map_sum id (\<lambda>x. p\<lparr>Source := x\<rparr>) (decode_string v (Source p))
      else if n = ''medium'' then map_sum id (\<lambda>x. p\<lparr>Medium := x\<rparr>) (decode_string v (Medium p))
      else if n = ''campaign'' then map_sum id (\<lambda>x. p\<lparr>Campaign := x\<rparr>) (decode_string v (Campaign p))
      else if n = ''content'' then map_sum id (\<lambda>x. p\<lparr>Content := x\<rparr>) (decode_string v (Content p))
      else if n = ''term'' then map_sum id (\<lambda>x. p\<lparr>Term := x\<rparr>) (decode_string v (Term p))
      else if n = ''created_at'' then map_sum id (\<lambda>x. p\<lparr>CreatedAt := x\<rparr>) (decode_string v (CreatedAt p))
      else if n = ''updated_at'' then map_sum id (\<lambda>x. p\<lparr>UpdatedAt := x\<rparr>) (decode_string v (UpdatedAt p))
      else Inr p)\<close>

definition decode_UTMPreset :: \<open>json \<Rightarrow> UTMPreset \<Rightarrow> error + UTMPreset\<close> where
  \<open>decode_UTMPreset = decode_struct UTMPreset_set UTMPreset_names ''tly.UTMPreset''\<close>

text \<open>The local \<open>var wrapped struct { Data T `json:"data"` }\<close> of the two decoders.\<close>

record 'a wrapped =
  Data :: 'a

definition wrapped_set ::
  \<open>(json \<Rightarrow> 'a \<Rightarrow> error + 'a) \<Rightarrow> string \<Rightarrow> json \<Rightarrow> 'a wrapped \<Rightarrow> error + 'a wrapped\<close> where
  \<open>wrapped_set dec n v w =
     (if n = ''data'' then map_sum id (\<lambda>x. w\<lparr>Data := x\<rparr>) (dec v (Data w)) else Inr w)\<close>

definition decode_wrapped :: \<open>(json \<Rightarrow> 'a \<Rightarrow> error + 'a) \<Rightarrow> json \<Rightarrow> 'a wrapped \<Rightarrow> error + 'a wrapped\<close> where
  \<open>decode_wrapped dec = decode_struct (wrapped_set dec) [''data''] ''struct''\<close>

definition decode_UTMPresets :: \<open>json \<Rightarrow> UTMPreset list \<Rightarrow> error + UTMPreset list\<close> where
  \<open>decode_UTMPresets = decode_slice decode_UTMPreset UTMPreset_zero ''[]tly.UTMPreset''\<close>

definition decodeUTMPreset :: \<open>bytes \<Rightarrow> error + UTMPreset\<close> where
  \<open>decodeUTMPreset data =
     (case Unmarshal decode_UTMPreset data UTMPreset_zero of
        Inr preset \<Rightarrow> Inr preset
      | Inl err \<Rightarrow>
          (case Unmarshal (decode_wrapped decode_UTMPreset) data \<lparr>Data = UTMPreset_zero\<rparr> of
             Inr w \<Rightarrow> Inr (Data w)
           | Inl err' \<Rightarrow> Inl (Errorf ''unable to decode UTM preset response'')))\<close>

text \<open>The decoding half of \<open>ListUTMPresets\<close> (after the request has succeeded).\<close>

definition ListUTMPresets_decode :: \<open>bytes \<Rightarrow> error + UTMPreset list\<close> where
  \<open>ListUTMPresets_decode data =
     (case Unmarshal decode_UTMPresets data [] of
        Inr presets \<Rightarrow> Inr presets
      | Inl err \<Rightarrow>
          (case Unmarshal (decode_wrapped decode_UTMPresets) data \<lparr>Data = []\<rparr> of
             Inr w \<Rightarrow> Inr (Data w)
           | Inl err' \<Rightarrow> Inl (Errorf ''unable to decode UTM preset list response'')))\<close>

subsection \<open>Request bodies and json.Marshal\<close>

text \<open>
  An \<open>interface{}\<close> field (\<open>Meta\<close>, \<open>Links\<close>) holds a value of a type the client
  does not know. The model knows such a value by what json.Marshal makes of it: the
  \<open>nil\<close> interface, a value with the JSON document it is written as, or a value that
  json.Marshal refuses (a channel, a function, a NaN) with the error it returns.
\<close>

datatype any_value = AnyNil | AnyValue json | AnyUnsupported error

text \<open>
  The struct encoder walks the fields in their order; a field tagged \<open>omitempty\<close> is
  left out when it is empty: a \<open>nil\<close> pointer or interface, a slice or a string of
  length zero. What is left is a list of keys, each with its encoded value or the error
  of encoding it.
\<close>

type_synonym fields = \<open>(string \<times> (error + json)) list\<close>

definition field :: \<open>string \<Rightarrow> json \<Rightarrow> fields\<close> where
  \<open>field k j = [(k, Inr j)]\<close>

definition omitempty_ptr :: \<open>string \<Rightarrow> ('a \<Rightarrow> json) \<Rightarrow> 'a option \<Rightarrow> fields\<close> where
  \<open>omitempty_ptr k enc p = (case p of None \<Rightarrow> [] | Some x \<Rightarrow> [(k, Inr (enc x))])\<close>

definition JInt :: \<open>int \<Rightarrow> json\<close> where
  \<open>JInt i = JNumber (Itoa i)\<close>

text \<open>A slice field is \<open>None\<close> when it is \<open>nil\<close>; \<open>Some []\<close> is a slice that was
  set and has no element.\<close>

definition omitempty_ints :: \<open>string \<Rightarrow> int list option \<Rightarrow> fields\<close> where
  \<open>omitempty_ints k s =
     (case s of
        None \<Rightarrow> []
      | Some xs \<Rightarrow> if length xs = 0 then [] else [(k, Inr (JArray (map JInt xs)))])\<close>

definition omitempty_string :: \<open>string \<Rightarrow> string \<Rightarrow> fields\<close> where
  \<open>omitempty_string k s = (if length s = 0 then [] else [(k, Inr (JString s))])\<close>

definition omitempty_any :: \<open>string \<Rightarrow> any_value \<Rightarrow> fields\<close> where
  \<open>omitempty_any k a =
     (case a of
        AnyNil \<Rightarrow> []
      | AnyValue j \<Rightarrow> [(k, Inr j)]
      | AnyUnsupported e \<Rightarrow> [(k, Inl e)])\<close>

definition field_any :: \<open>string \<Rightarrow> any_value \<Rightarrow> fields\<close> where
  \<open>field_any k a =
     (case a of
        AnyNil \<Rightarrow> [(k, Inr JNull)]
      | AnyValue j \<Rightarrow> [(k, Inr j)]
      | AnyUnsupported e \<Rightarrow> [(k, Inl e)])\<close>

fun marshal_fields :: \<open>fields \<Rightarrow> error + (string \<times> json) list\<close> where
  \<open>marshal_fields [] = Inr []\<close>
| \<open>marshal_fields (kv # r) =
     (case snd kv of
        Inl e \<Rightarrow> Inl e
      | Inr j \<Rightarrow> map_sum id ((#) (fst kv, j)) (marshal_fields r))\<close>

definition marshal_struct :: \<open>fields \<Rightarrow> error + json\<close> where
  \<open>marshal_struct fs = map_sum id JObject (marshal_fields fs)\<close>

record PixelCreateRequest =
  Name_PC :: string
  PixelID_PC :: string
  PixelType_PC :: string

definition PixelCreateRequest_fields :: \<open>PixelCreateRequest \<Rightarrow> fields\<close> where
  \<open>PixelCreateRequest_fields r =
     field ''name'' (JString (Name_PC r)) @ field ''pixel_id'' (JString (PixelID_PC r))
     @ field ''pixel_type'' (JString (PixelType_PC r))\<close>

record PixelUpdateRequest =
  ID_PU :: int
  Name_PU :: string
  PixelID_PU :: string
  PixelType_PU :: string

definition PixelUpdateRequest_fields :: \<open>PixelUpdateRequest \<Rightarrow> fields\<close> where
  \<open>PixelUpdateRequest_fields r =
     field ''id'' (JInt (ID_PU r)) @ field ''name'' (JString (Name_PU r))
     @ field ''pixel_id'' (JString (PixelID_PU r))
     @ field ''pixel_type'' (JString (PixelType_PU r))\<close>

record ShortLinkCreateRequest =
  LongURL :: string
  ShortID :: \<open>string option\<close>
  Domain :: string
  ExpireAtDatetime :: \<open>string option\<close>
  ExpireAtViews :: \<open>int option\<close>
  Description :: \<open>string option\<close>
  PublicStats :: \<open>bool option\<close>
  Password :: \<open>string option\<close>
  Tags :: \<open>int list option\<close>
  Pixels :: \<open>int list option\<close>
  Meta :: any_value

definition ShortLinkCreateRequest_fields :: \<open>ShortLinkCreateRequest \<Rightarrow> fields\<close> where
  \<open>ShortLinkCreateRequest_fields r =
     field ''long_url'' (JString (LongURL r))
     @ omitempty_ptr ''short_id'' JString (ShortID r)
     @ field ''domain'' (JString (Domain r))
     @ omitempty_ptr ''expire_at_datetime'' JString (ExpireAtDatetime r)
     @ omitempty_ptr ''expire_at_views'' JInt (ExpireAtViews r)
     @ omitempty_ptr ''description'' JString (Description r)
     @ omitempty_ptr ''public_stats'' JBool (PublicStats r)
     @ omitempty_ptr ''password'' JString (Password r)
     @ omitempty_ints ''tags'' (Tags r)
     @ omitempty_ints ''pixels'' (Pixels r)
     @ omitempty_any ''meta'' (Meta r)\<close>

record ShortLinkUpdateRequest =
  ShortURL_SU :: string
  ShortID_SU :: \<open>string option\<close>
  LongURL_SU :: string
  ExpireAtDatetime_SU :: \<open>string option\<close>
  ExpireAtViews_SU :: \<open>int option\<close>
  Description_SU :: \<open>string option\<close>
  PublicStats_SU :: \<open>bool option\<close>
  Password_SU :: \<open>string option\<close>
  Tags_SU :: \<open>int list option\<close>
  Pixels_SU :: \<open>int list option\<close>
  Meta_SU :: any_value

definition ShortLinkUpdateRequest_fields :: \<open>ShortLinkUpdateRequest \<Rightarrow> fields\<close> where
  \<open>ShortLinkUpdateRequest_fields r =
     field ''short_url'' (JString (ShortURL_SU r))
     @ omitempty_ptr ''short_id'' JString (ShortID_SU r)
     @ field ''long_url'' (JString (LongURL_SU r))
     @ omitempty_ptr ''expire_at_datetime'' JString (ExpireAtDatetime_SU r)
     @ omitempty_ptr ''expire_at_views'' JInt (ExpireAtViews_SU r)
     @ omitempty_ptr ''description'' JString (Description_SU r)
     @ omitempty_ptr ''public_stats'' JBool (PublicStats_SU r)
     @ omitempty_ptr ''password'' JString (Password_SU r)
     @ omitempty_ints ''tags'' (Tags_SU r)
     @ omitempty_ints ''pixels'' (Pixels_SU r)
     @ omitempty_any ''meta'' (Meta_SU r)\<close>

record ExpandRequest =
  ShortURL_E :: string
  Password_E :: \<open>string option\<close>

definition ExpandRequest_fields :: \<open>ExpandRequest \<Rightarrow> fields\<close> where
  \<open>ExpandRequest_fields r =
     field ''short_url'' (JString (ShortURL_E r)) @ omitempty_ptr ''password'' JString (Password_E r)\<close>

record BulkShortenLink =
  LongURL_BSL :: string
  Backhalf_BSL :: \<open>string option\<close>
  Password_BSL :: \<open>string option\<close>
  Description_BSL :: \<open>string option\<close>

definition BulkShortenLink_fields :: \<open>BulkShortenLink \<Rightarrow> fields\<close> where
  \<open>BulkShortenLink_fields r =
     field ''long_url'' (JString (LongURL_BSL r))
     @ omitempty_ptr ''backhalf'' JString (Backhalf_BSL r)
     @ omitempty_ptr ''password'' JString (Password_BSL r)
     @ omitempty_ptr ''description'' JString (Description_BSL r)\<close>

record BulkShortenRequest =
  Domain_BS :: string
  Links_BS :: any_value
  Tags_BS :: \<open>int list option\<close>
  Pixels_BS :: \<open>int list option\<close>

definition BulkShortenRequest_fields :: \<open>BulkShortenRequest \<Rightarrow> fields\<close> where
  \<open>BulkShortenRequest_fields r =
     field ''domain'' (JString (Domain_BS r))
     @ field_any ''links'' (Links_BS r)
     @ omitempty_ints ''tags'' (Tags_BS r)
     @ omitempty_ints ''pixels'' (Pixels_BS r)\<close>

record BulkUpdateLink =
  ShortURL_BUL :: string
  LongURL_BUL :: string
  Backhalf_BUL :: \<open>string option\<close>
  Password_BUL :: \<open>string option\<close>
  Description_BUL :: \<open>string option\<close>

definition BulkUpdateLink_fields :: \<open>BulkUpdateLink \<Rightarrow> fields\<close> where
  \<open>BulkUpdateLink_fields r =
     field ''short_url'' (JString (ShortURL_BUL r))
     @ omitempty_string ''long_url'' (LongURL_BUL r)
     @ omitempty_ptr ''backhalf'' JString (Backhalf_BUL r)
     @ omitempty_ptr ''password'' JString (Password_BUL r)
     @ omitempty_ptr ''description'' JString (Description_BUL r)\<close>

record BulkUpdateRequest =
  Links_BU :: any_value
  Tags_BU :: \<open>int list option\<close>
  Pixels_BU :: \<open>int list option\<close>

definition BulkUpdateRequest_fields :: \<open>BulkUpdateRequest \<Rightarrow> fields\<close> where
  \<open>BulkUpdateRequest_fields r =
     field_any ''links'' (Links_BU r)
     @ omitempty_ints ''tags'' (Tags_BU r)
     @ omitempty_ints ''pixels'' (Pixels_BU r)\<close>

record UTMPresetRequest =
  Name_UR :: string
  Source_UR :: string
  Medium_UR :: string
  Campaign_UR :: string
  Content_UR :: string
  Term_UR :: string

definition UTMPresetRequest_fields :: \<open>UTMPresetRequest \<Rightarrow> fields\<close> where
  \<open>UTMPresetRequest_fields r =
     field ''name'' (JString (Name_UR r)) @ field ''source'' (JString (Source_UR r))
     @ field ''medium'' (JString (Medium_UR r)) @ field ''campaign'' (JString (Campaign_UR r))
     @ field ''content'' (JString (Content_UR r)) @ field ''term'' (JString (Term_UR r))\<close>

record QRCodeUpdateRequest =
  ShortURL_QU :: string
  Image_QU :: \<open>string option\<close>
  BackgroundColor_QU :: \<open>string option\<close>
  CornerDotsColor_QU :: \<open>string option\<close>
  DotsColor_QU :: \<open>string option\<close>
  DotsStyle_QU :: \<open>string option\<close>
  CornerStyle_QU :: \<open>string option\<close>

definition QRCodeUpdateRequest_fields :: \<open>QRCodeUpdateRequest \<Rightarrow> fields\<close> where
  \<open>QRCodeUpdateRequest_fields r =
     field ''short_url'' (JString (ShortURL_QU r))
     @ omitempty_ptr ''image'' JString (Image_QU r)
     @ omitempty_ptr ''background_color'' JString (BackgroundColor_QU r)
     @ omitempty_ptr ''corner_dots_color'' JString (CornerDotsColor_QU r)
     @ omitempty_ptr ''dots_color'' JString (DotsColor_QU r)
     @ omitempty_ptr ''dots_style'' JString (DotsStyle_QU r)
     @ omitempty_ptr ''corner_style'' JString (CornerStyle_QU r)\<close>

text \<open>A \<open>map[string]string\<close> is written with its keys sorted.\<close>

definition map_members :: \<open>(string \<times> string) list \<Rightarrow> (string \<times> json) list\<close> where
  \<open>map_members m =
     map (\<lambda>k. (k, JString (case map_of m k of None \<Rightarrow> [] | Some v \<Rightarrow> v)))
         (sort (remdups (map fst m)))\<close>

text \<open>The values the client passes as \<open>body interface{}\<close>.\<close>

datatype body_value =
    MapBody \<open>(string \<times> string) list\<close>
  | PixelCreateBody PixelCreateRequest
  | PixelUpdateBody PixelUpdateRequest
  | ShortLinkCreateBody ShortLinkCreateRequest
  | ShortLinkUpdateBody ShortLinkUpdateRequest
  | ExpandBody ExpandRequest
  | BulkShortenBody BulkShortenRequest
  | BulkUpdateBody BulkUpdateRequest
  | UTMPresetBody UTMPresetRequest
  | QRCodeUpdateBody QRCodeUpdateRequest

definition body_json :: \<open>body_value \<Rightarrow> error + json\<close> where
  \<open>body_json b =
     (case b of
        MapBody m \<Rightarrow> Inr (JObject (map_members m))
      | PixelCreateBody r \<Rightarrow> marshal_struct (PixelCreateRequest_fields r)
      | PixelUpdateBody r \<Rightarrow> marshal_struct (PixelUpdateRequest_fields r)
      | ShortLinkCreateBody r \<Rightarrow> marshal_struct (ShortLinkCreateRequest_fields r)
      | ShortLinkUpdateBody r \<Rightarrow> marshal_struct (ShortLinkUpdateRequest_fields r)
      | ExpandBody r \<Rightarrow> marshal_struct (ExpandRequest_fields r)
      | BulkShortenBody r \<Rightarrow> marshal_struct (BulkShortenRequest_fields r)
      | BulkUpdateBody r \<Rightarrow> marshal_struct (BulkUpdateRequest_fields r)
      | UTMPresetBody r \<Rightarrow> marshal_struct (UTMPresetRequest_fields r)
      | QRCodeUpdateBody r \<Rightarrow> marshal_struct (QRCodeUpdateRequest_fields r))\<close>

definition Marshal :: \<open>body_value \<Rightarrow> error + bytes\<close> where
  \<open>Marshal b = map_sum id json_encode (body_json b)\<close>

subsection \<open>The transport\<close>

text \<open>
  What the client sees of \<open>net/http\<close>. \<open>http.NewRequest\<close> refuses a method or a URL
  it cannot parse; \<open>Client.Do\<close> fails or answers with a status code and a body, and
  reading the body with \<open>ioutil.ReadAll\<close> fails or gives its bytes. What they do is a
  parameter of the model, the record \<open>net_http\<close>. Every function that may send a
  request returns, beside its result, the list of the requests it handed to
  \<open>Client.Do\<close>.
\<close>

record Request =
  Method :: string
  URL :: string
  Header :: \<open>(string \<times> string) list\<close>
  ReqBody :: bytes

record Response =
  StatusCode :: int
  Body :: \<open>error + bytes\<close>

record net_http =
  NewRequest_err :: \<open>string \<Rightarrow> string \<Rightarrow> error option\<close>
  Do :: \<open>Request \<Rightarrow> error + Response\<close>

record Client =
  APIKey :: string
  BaseURL :: string

definition NewClient :: \<open>string \<Rightarrow> Client\<close> where
  \<open>NewClient apiKey = \<lparr>APIKey = apiKey, BaseURL = ''https://api.t.ly''\<rparr>\<close>

definition MethodGet :: string where \<open>MethodGet = ''GET''\<close>
definition MethodPost :: string where \<open>MethodPost = ''POST''\<close>
definition MethodPut :: string where \<open>MethodPut = ''PUT''\<close>
definition MethodDelete :: string where \<open>MethodDelete = ''DELETE''\<close>

subsection \<open>doRequestRaw and doRequest\<close>

text \<open>The local \<open>requestURL\<close> of \<open>doRequestRaw\<close>.\<close>

definition requestURL :: \<open>Client \<Rightarrow> string \<Rightarrow> Values option \<Rightarrow> string\<close> where
  \<open>requestURL c path query =
     TrimRight (BaseURL c) ''/'' @ path
     @ (case query of
          None \<Rightarrow> []
        | Some q \<Rightarrow> if Values_len q > 0 then ''?'' @ Values_Encode q else [])\<close>

text \<open>The request \<open>doRequestRaw\<close> hands to \<open>Client.Do\<close>: what it gave to
  http.NewRequest, and the three headers it sets.\<close>

definition newRequest :: \<open>Client \<Rightarrow> string \<Rightarrow> string \<Rightarrow> Values option \<Rightarrow> bytes \<Rightarrow> Request\<close> where
  \<open>newRequest c method path query reqBody =
     \<lparr>Method = method, URL = requestURL c path query,
      Header = [(''Authorization'', ''Bearer '' @ APIKey c),
                (''Content-Type'', ''application/json''),
                (''Accept'', ''application/json'')],
      ReqBody = reqBody\<rparr>\<close>

definition doRequestRaw ::
  \<open>net_http \<Rightarrow> Client \<Rightarrow> string \<Rightarrow> string \<Rightarrow> Values option \<Rightarrow> body_value option
     \<Rightarrow> (error + bytes) \<times> Request list\<close> where
  \<open>doRequestRaw h c method path query body =
     (case (case body of None \<Rightarrow> Inr [] | Some b \<Rightarrow> Marshal b) of
        Inl err \<Rightarrow> (Inl err, [])
      | Inr reqBody \<Rightarrow>
          (case NewRequest_err h method (requestURL c path query) of
             Some err \<Rightarrow> (Inl err, [])
           | None \<Rightarrow>
               let req = newRequest c method path query reqBody in
               (case Do h req of
                  Inl err \<Rightarrow> (Inl err, [req])
                | Inr resp \<Rightarrow>
                    (case Body resp of
                       Inl readErr \<Rightarrow> (Inl readErr, [req])
                     | Inr data \<Rightarrow>
                         if StatusCode resp < 200 \<or> StatusCode resp \<ge> 300
                         then (Inl (APIError (StatusCode resp) data), [req])
                         else (Inr data, [req])))))\<close>

text \<open>
  The \<open>result interface{}\<close> of \<open>doRequest\<close>: \<open>nil\<close>, a \<open>*[]byte\<close> with the bytes
  it points to, or a pointer to a value of the type the answer is decoded into, with
  that value. \<open>doRequest\<close> returns the value \<open>result\<close> points to afterwards, or the
  error; the decoder \<open>unmarshal\<close> is json.Unmarshal at the type of the target.
\<close>

datatype 'a target = NilTarget | BytesTarget bytes | TypedTarget 'a

definition is_nil :: \<open>'a target \<Rightarrow> bool\<close> where
  \<open>is_nil t = (case t of NilTarget \<Rightarrow> True | _ \<Rightarrow> False)\<close>

definition doRequest ::
  \<open>net_http \<Rightarrow> (bytes \<Rightarrow> 'a \<Rightarrow> error + 'a) \<Rightarrow> Client \<Rightarrow> string \<Rightarrow> string \<Rightarrow> Values option
     \<Rightarrow> body_value option \<Rightarrow> 'a target \<Rightarrow> (error + 'a target) \<times> Request list\<close> where
  \<open>doRequest h unmarshal c method path query body result =
     (case doRequestRaw h c method path query body of
        (Inl err, sent) \<Rightarrow> (Inl err, sent)
      | (Inr data, sent) \<Rightarrow>
          if is_nil result \<or> length (TrimSpace data) = 0 then (Inr result, sent)
          else
            (case result of
               BytesTarget byteTarget \<Rightarrow> (Inr (BytesTarget (take 0 byteTarget @ data)), sent)
             | TypedTarget v \<Rightarrow>
                 (case unmarshal data v of
                    Inl err \<Rightarrow> (Inl err, sent)
                  | Inr v' \<Rightarrow> (Inr (TypedTarget v'), sent))
             | NilTarget \<Rightarrow> (Inr result, sent)))\<close>

definition queryFromMap :: \<open>(string \<times> string) list \<Rightarrow> Values\<close> where
  \<open>queryFromMap params = foldl (\<lambda>query kv. Values_Set query (fst kv) (snd kv)) [] params\<close>

text \<open>\<open>addIndexedIntSlice\<close>, with the loop index as an argument. The Go function
  writes into the map it is given; the model returns the map.\<close>

definition indexed_key :: \<open>string \<Rightarrow> nat \<Rightarrow> string\<close> where
  \<comment> \<open>\<open>fmt.Sprintf("%s[%d]", key, i)\<close>\<close>
  \<open>indexed_key key i = key @ ''['' @ Itoa (int i) @ '']''\<close>

fun addIndexedIntSlice_from :: \<open>nat \<Rightarrow> Values \<Rightarrow> string \<Rightarrow> int list \<Rightarrow> Values\<close> where
  \<open>addIndexedIntSlice_from i query key [] = query\<close>
| \<open>addIndexedIntSlice_from i query key (v # vs) =
     addIndexedIntSlice_from (Suc i) (Values_Set query (indexed_key key i) (Itoa v)) key vs\<close>

definition addIndexedIntSlice :: \<open>Values \<Rightarrow> string \<Rightarrow> int list \<Rightarrow> Values\<close> where
  \<open>addIndexedIntSlice query key values = addIndexedIntSlice_from 0 query key values\<close>

subsection \<open>Endpoint methods\<close>

text \<open>A method that returns only an \<open>error\<close> returns \<open>None\<close> for \<open>nil\<close>.\<close>

definition error_of :: \<open>(error + 'a) \<times> Request list \<Rightarrow> error option \<times> Request list\<close> where
  \<open>error_of r = (case fst r of Inl e \<Rightarrow> Some e | Inr x \<Rightarrow> None, snd r)\<close>

text \<open>A method that decodes into a local variable of a response type returns that
  variable. The response types other than \<open>UTMPreset\<close> are not modelled: such a method
  takes the zero value of its type and json.Unmarshal at that type as parameters.\<close>

definition typed_result :: \<open>(error + 'a target) \<times> Request list \<Rightarrow> 'a \<Rightarrow> (error + 'a) \<times> Request list\<close> where
  \<open>typed_result r zero =
     (case fst r of
        Inl e \<Rightarrow> Inl e
      | Inr NilTarget \<Rightarrow> Inr zero
      | Inr (BytesTarget b) \<Rightarrow> Inr zero
      | Inr (TypedTarget v) \<Rightarrow> Inr v,
      snd r)\<close>

definition no_decoder :: \<open>bytes \<Rightarrow> unit \<Rightarrow> error + unit\<close> where
  \<open>no_decoder data v = Inr v\<close>

definition DeletePixel :: \<open>net_http \<Rightarrow> Client \<Rightarrow> int \<Rightarrow> error option \<times> Request list\<close> where
  \<open>DeletePixel h c id' =
     error_of (doRequest h no_decoder c MethodDelete (''/api/v1/link/pixel/'' @ Itoa id')
                 None None NilTarget)\<close>

definition DeleteTag :: \<open>net_http \<Rightarrow> Client \<Rightarrow> int \<Rightarrow> error option \<times> Request list\<close> where
  \<open>DeleteTag h c id' =
     error_of (doRequest h no_decoder c MethodDelete (''/api/v1/link/tag/'' @ Itoa id')
                 None None NilTarget)\<close>

definition DeleteUTMPreset :: \<open>net_http \<Rightarrow> Client \<Rightarrow> int \<Rightarrow> error option \<times> Request list\<close> where
  \<open>DeleteUTMPreset h c id' =
     error_of (doRequest h no_decoder c MethodDelete (''/api/v1/link/utm-preset/'' @ Itoa id')
                 None None NilTarget)\<close>

definition DeleteShortLink :: \<open>net_http \<Rightarrow> Client \<Rightarrow> string \<Rightarrow> error option \<times> Request list\<close> where
  \<open>DeleteShortLink h c shortURL =
     (let reqBody = MapBody [(''short_url'', shortURL)]
      in error_of (doRequest h no_decoder c MethodDelete ''/api/v1/link'' None (Some reqBody)
                     NilTarget))\<close>

definition DeleteOneLinkStats :: \<open>net_http \<Rightarrow> Client \<Rightarrow> string \<Rightarrow> error option \<times> Request list\<close> where
  \<open>DeleteOneLinkStats h c shortURL =
     (let reqBody = MapBody [(''short_url'', shortURL)]
      in error_of (doRequest h no_decoder c MethodDelete ''/api/v1/onelink/stat'' None
                     (Some reqBody) NilTarget))\<close>

definition CreateShortLink ::
  \<open>net_http \<Rightarrow> (bytes \<Rightarrow> 'l \<Rightarrow> error + 'l) \<Rightarrow> 'l \<Rightarrow> Client \<Rightarrow> ShortLinkCreateRequest
     \<Rightarrow> (error + 'l) \<times> Request list\<close> where
  \<open>CreateShortLink h unmarshal link c reqData =
     typed_result (doRequest h unmarshal c MethodPost ''/api/v1/link/shorten'' None
                     (Some (ShortLinkCreateBody reqData)) (TypedTarget link)) link\<close>

record ListShortLinksOptions =
  Search :: string
  TagIDs :: \<open>int list\<close>
  PixelIDs :: \<open>int list\<close>
  StartDate_LO :: string
  EndDate_LO :: string
  Domains :: \<open>int list\<close>
  Page :: int

text \<open>The local \<open>query\<close> of \<open>ListShortLinksDetailed\<close>.\<close>

definition ListShortLinksDetailed_query :: \<open>ListShortLinksOptions \<Rightarrow> Values\<close> where
  \<open>ListShortLinksDetailed_query options =
     (let query = [];
          query = (if Search options \<noteq> [] then Values_Set query ''search'' (Search options) else query);
          query = addIndexedIntSlice query ''tag_ids'' (TagIDs options);
          query = addIndexedIntSlice query ''pixel_ids'' (PixelIDs options);
          query = (if StartDate_LO options \<noteq> []
                   then Values_Set query ''start_date'' (StartDate_LO options) else query);
          query = (if EndDate_LO options \<noteq> []
                   then Values_Set query ''end_date'' (EndDate_LO options) else query);
          query = addIndexedIntSlice query ''domains'' (Domains options);
          query = (if Page options > 0 then Values_Set query ''page'' (Itoa (Page options)) else query)
      in query)\<close>

definition ListShortLinksDetailed ::
  \<open>net_http \<Rightarrow> (bytes \<Rightarrow> 'r \<Rightarrow> error + 'r) \<Rightarrow> 'r \<Rightarrow> Client \<Rightarrow> ListShortLinksOptions
     \<Rightarrow> (error + 'r) \<times> Request list\<close> where
  \<open>ListShortLinksDetailed h unmarshal result c options =
     typed_result (doRequest h unmarshal c MethodGet ''/api/v1/link/list''
                     (Some (ListShortLinksDetailed_query options)) None (TypedTarget result))
       result\<close>

record StatsRequest =
  ShortURL :: string
  StartDate :: string
  EndDate :: string

text \<open>The local \<open>query\<close> of \<open>GetStatsWithRange\<close>.\<close>

definition GetStatsWithRange_query :: \<open>StatsRequest \<Rightarrow> Values\<close> where
  \<open>GetStatsWithRange_query reqData =
     (let query = Values_Set [] ''short_url'' (ShortURL reqData);
          query = (if StartDate reqData \<noteq> []
                   then Values_Set query ''start_date'' (StartDate reqData) else query);
          query = (if EndDate reqData \<noteq> []
                   then Values_Set query ''end_date'' (EndDate reqData) else query)
      in query)\<close>

definition GetStatsWithRange ::
  \<open>net_http \<Rightarrow> (bytes \<Rightarrow> 's \<Rightarrow> error + 's) \<Rightarrow> 's \<Rightarrow> Client \<Rightarrow> StatsRequest
     \<Rightarrow> (error + 's) \<times> Request list\<close> where
  \<open>GetStatsWithRange h unmarshal stats c reqData =
     typed_result (doRequest h unmarshal c MethodGet ''/api/v1/link/stats''
                     (Some (GetStatsWithRange_query reqData)) None (TypedTarget stats))
       stats\<close>

definition GetStats ::
  \<open>net_http \<Rightarrow> (bytes \<Rightarrow> 's \<Rightarrow> error + 's) \<Rightarrow> 's \<Rightarrow> Client \<Rightarrow> string
     \<Rightarrow> (error + 's) \<times> Request list\<close> where
  \<open>GetStats h unmarshal stats c shortURL =
     GetStatsWithRange h unmarshal stats c \<lparr>ShortURL = shortURL, StartDate = [], EndDate = []\<rparr>\<close>

definition CreateUTMPreset ::
  \<open>net_http \<Rightarrow> Client \<Rightarrow> UTMPresetRequest \<Rightarrow> (error + UTMPreset) \<times> Request list\<close> where
  \<open>CreateUTMPreset h c reqData =
     (case doRequestRaw h c MethodPost ''/api/v1/link/utm-preset'' None (Some (UTMPresetBody reqData)) of
        (Inl err, sent) \<Rightarrow> (Inl err, sent)
      | (Inr data, sent) \<Rightarrow> (decodeUTMPreset data, sent))\<close>

definition ListUTMPresets :: \<open>net_http \<Rightarrow> Client \<Rightarrow> (error + UTMPreset list) \<times> Request list\<close> where
  \<open>ListUTMPresets h c =
     (case doRequestRaw h c MethodGet ''/api/v1/link/utm-preset'' None None of
        (Inl err, sent) \<Rightarrow> (Inl err, sent)
      | (Inr data, sent) \<Rightarrow> (ListUTMPresets_decode data, sent))\<close>

definition GetUTMPreset :: \<open>net_http \<Rightarrow> Client \<Rightarrow> int \<Rightarrow> (error + UTMPreset) \<times> Request list\<close> where
  \<open>GetUTMPreset h c id' =
     (case doRequestRaw h c MethodGet (''/api/v1/link/utm-preset/'' @ Itoa id') None None of
        (Inl err, sent) \<Rightarrow> (Inl err, sent)
      | (Inr data, sent) \<Rightarrow> (decodeUTMPreset data, sent))\<close>

definition UpdateUTMPreset ::
  \<open>net_http \<Rightarrow> Client \<Rightarrow> int \<Rightarrow> UTMPresetRequest \<Rightarrow> (error + UTMPreset) \<times> Request list\<close> where
  \<open>UpdateUTMPreset h c id' reqData =
     (case doRequestRaw h c MethodPut (''/api/v1/link/utm-preset/'' @ Itoa id') None
             (Some (UTMPresetBody reqData)) of
        (Inl err, sent) \<Rightarrow> (Inl err, sent)
      | (Inr data, sent) \<Rightarrow> (decodeUTMPreset data, sent))\<close>

record QRCodeRequest =
  ShortURL_QR :: string
  Output :: string
  Format :: string

text \<open>The local \<open>query\<close> of \<open>GetQRCode\<close>.\<close>

definition GetQRCode_query :: \<open>QRCodeRequest \<Rightarrow> Values\<close> where
  \<open>GetQRCode_query reqData =
     (let query = Values_Set [] ''short_url'' (ShortURL_QR reqData);
          query = (if Output reqData \<noteq> [] then Values_Set query ''output'' (Output reqData) else query);
          query = (if Format reqData \<noteq> [] then Values_Set query ''format'' (Format reqData) else query)
      in query)\<close>

definition GetQRCode :: \<open>net_http \<Rightarrow> Client \<Rightarrow> QRCodeRequest \<Rightarrow> (error + bytes) \<times> Request list\<close> where
  \<open>GetQRCode h c reqData =
     doRequestRaw h c MethodGet ''/api/v1/link/qr-code'' (Some (GetQRCode_query reqData)) None\<close>

subsection \<open>Concrete transports and values for the examples\<close>

text \<open>A transport that accepts every request and answers each with the same status
  code and body.\<close>

definition answering :: \<open>int \<Rightarrow> bytes \<Rightarrow> net_http\<close> where
  \<open>answering sc data =
     \<lparr>NewRequest_err = (\<lambda>m u. None), Do = (\<lambda>req. Inr \<lparr>StatusCode = sc, Body = Inr data\<rparr>)\<rparr>\<close>

text \<open>A decoder that fails on every input.\<close>

definition failing_decoder :: \<open>bytes \<Rightarrow> 'a \<Rightarrow> error + 'a\<close> where
  \<open>failing_decoder data v = Inl SyntaxError\<close>

text \<open>The request of the scenario: only \<open>long_url\<close> and \<open>domain\<close> are set.\<close>

definition example_create :: ShortLinkCreateRequest where
  \<open>example_create =
     \<lparr>LongURL = ''https://example.com'', ShortID = None, Domain = ''t.ly'',
      ExpireAtDatetime = None, ExpireAtViews = None, Description = None, PublicStats = None,
      Password = None, Tags = None, Pixels = None, Meta = AnyNil\<rparr>\<close>

definition auth_headers :: \<open>string \<Rightarrow> (string \<times> string) list\<close> where
  \<open>auth_headers key =
     [(''Authorization'', ''Bearer '' @ key), (''Content-Type'', ''application/json''),
      (''Accept'', ''application/json'')]\<close>

text \<open>The request of the QR code scenario.\<close>

definition example_qr :: QRCodeRequest where
  \<open>example_qr = \<lparr>ShortURL_QR = ''https://t.ly/abc'', Output = [], Format = ''eps''\<rparr>\<close>

section \<open>Properties\<close>

subsection \<open>Helper lemmas\<close>

lemma byte_chr: \<open>n < 256 \<Longrightarrow> byte (chr n) = n\<close>
  by (simp add: byte_def chr_def)

lemma asciiSpace_lt: \<open>asciiSpace ch \<Longrightarrow> \<not> 0x80 \<le> byte ch\<close>
  by (auto simp: asciiSpace_def)

lemma TrimSpace_ascii: \<open>\<forall>ch\<in>set s. asciiSpace ch \<Longrightarrow> TrimSpace s = []\<close>
  by (induction s) (auto simp: asciiSpace_lt)

lemma QueryEscape_short_url: \<open>QueryEscape ''short_url'' = ''short_url''\<close>
  by code_simp

lemma Values_Encode_single: \<open>Values_Encode [(k, [v])] = QueryEscape k @ ''='' @ QueryEscape v\<close>
  by (simp add: Values_Encode_def Values_pairs_def Values_keys_def Values_lookup_def)

lemma Values_len_single: \<open>Values_len [(k, vs)] = 1\<close>
  by (simp add: Values_len_def Values_keys_def)

subsection \<open>Status codes and API errors\<close>

text \<open>
  Claim C2. When the request was sent and the body of the response was read, the status
  code decides: a code from 200 to 299 makes \<open>doRequestRaw\<close> return the bytes of the
  body as they are; any other code makes it fail with an \<open>APIError\<close> that carries this
  status code and these bytes, unchanged. \<open>doRequest\<close> passes that error on, whatever
  its decoder and its target.
\<close>

theorem doRequestRaw_status:
  assumes \<open>(case body of None \<Rightarrow> Inr [] | Some b \<Rightarrow> Marshal b) = Inr reqBody\<close>
    and \<open>NewRequest_err h method (requestURL c path query) = None\<close>
    and \<open>Do h (newRequest c method path query reqBody) = Inr resp\<close>
    and \<open>Body resp = Inr data\<close>
  shows \<open>fst (doRequestRaw h c method path query body) =
           (if 200 \<le> StatusCode resp \<and> StatusCode resp \<le> 299 then Inr data
            else Inl (APIError (StatusCode resp) data))
         \<and> (\<not> (200 \<le> StatusCode resp \<and> StatusCode resp \<le> 299) \<longrightarrow>
              fst (doRequest h unmarshal c method path query body result)
                = Inl (APIError (StatusCode resp) data))\<close>
  using assms by (auto simp: doRequestRaw_def doRequest_def Let_def split: option.splits)

theorem doRequestRaw_status_witness:
  \<open>fst (doRequestRaw (answering 404 ''{"message":"Not Found"}'') (NewClient ''key'') MethodGet
          ''/api/v1/link/tag/7'' None None)
     = Inl (APIError 404 ''{"message":"Not Found"}'')
   \<and> fst (doRequest (answering 404 ''{"message":"Not Found"}'') failing_decoder (NewClient ''key'')
          MethodGet ''/api/v1/link/tag/7'' None None (TypedTarget (0::int)))
     = Inl (APIError 404 ''{"message":"Not Found"}'')
   \<and> fst (doRequestRaw (answering 201 ''{"id":7}'') (NewClient ''key'') MethodGet
          ''/api/v1/link/tag/7'' None None)
     = Inr ''{"id":7}''\<close>
  using doRequestRaw_status [of None \<open>[]\<close> \<open>answering 404 ''{"message":"Not Found"}''\<close> MethodGet
      \<open>NewClient ''key''\<close> \<open>''/api/v1/link/tag/7''\<close> None
      \<open>\<lparr>StatusCode = 404, Body = Inr ''{"message":"Not Found"}''\<rparr>\<close> \<open>''{"message":"Not Found"}''\<close>
      failing_decoder \<open>TypedTarget (0::int)\<close>]
    doRequestRaw_status [of None \<open>[]\<close> \<open>answering 201 ''{"id":7}''\<close> MethodGet
      \<open>NewClient ''key''\<close> \<open>''/api/v1/link/tag/7''\<close> None
      \<open>\<lparr>StatusCode = 201, Body = Inr ''{"id":7}''\<rparr>\<close> \<open>''{"id":7}''\<close>
      failing_decoder \<open>TypedTarget (0::int)\<close>]
  by (simp add: answering_def)

subsection \<open>Blank response bodies\<close>

text \<open>
  Claim C4. When the request succeeded and the body of the response is empty or holds
  only white space (\<open>bytes.TrimSpace\<close> leaves nothing of it; in particular when every
  byte of it is an ASCII white space character), \<open>doRequest\<close> with a typed target
  returns without an error and leaves the target as it was. The decoder is a parameter
  of the statement: the result is the same for a decoder that fails on every input, so
  no decoding takes part in it.
\<close>

theorem doRequest_blank_body:
  assumes \<open>doRequestRaw h c method path query body = (Inr data, sent)\<close>
  shows \<open>(length (TrimSpace data) = 0 \<longrightarrow>
            doRequest h unmarshal c method path query body (TypedTarget v) = (Inr (TypedTarget v), sent))
         \<and> ((\<forall>ch\<in>set data. asciiSpace ch) \<longrightarrow>
            doRequest h unmarshal c method path query body (TypedTarget v) = (Inr (TypedTarget v), sent))\<close>
  using assms by (auto simp: doRequest_def TrimSpace_ascii)

lemma blank_raw:
  \<open>doRequestRaw (answering 200 [chr 0x20, chr 0x0A]) (NewClient ''key'') MethodPut ''/api/v1/link'' None None
     = (Inr [chr 0x20, chr 0x0A],
        [\<lparr>Method = ''PUT'', URL = ''https://api.t.ly/api/v1/link'', Header = auth_headers ''key'',
          ReqBody = []\<rparr>])\<close>
  by code_simp

theorem doRequest_blank_body_witness:
  \<open>list_all asciiSpace [chr 0x20, chr 0x0A]
   \<and> doRequest (answering 200 [chr 0x20, chr 0x0A]) failing_decoder (NewClient ''key'') MethodPut
        ''/api/v1/link'' None None (TypedTarget (0::int))
     = (Inr (TypedTarget 0),
        [\<lparr>Method = ''PUT'', URL = ''https://api.t.ly/api/v1/link'', Header = auth_headers ''key'',
          ReqBody = []\<rparr>])\<close>
proof -
  have ws: \<open>list_all asciiSpace [chr 0x20, chr 0x0A]\<close>
    by code_simp
  then have \<open>\<forall>ch\<in>set [chr 0x20, chr 0x0A]. asciiSpace ch\<close>
    by (simp only: list_all_iff)
  with doRequest_blank_body [OF blank_raw, of failing_decoder \<open>0::int\<close>] ws show ?thesis
    by blast
qed

subsection \<open>Serialization errors\<close>

text \<open>
  Claim C6. When json.Marshal fails on the body value, \<open>doRequestRaw\<close> returns the
  error of json.Marshal and hands no request to the transport, whatever the transport
  would do with one.
\<close>

theorem doRequestRaw_marshal_error:
  \<open>Marshal b = Inl err \<Longrightarrow> doRequestRaw h c method path query (Some b) = (Inl err, [])\<close>
  by (simp add: doRequestRaw_def)

lemma Marshal_unsupported:
  \<open>Marshal (ShortLinkCreateBody (example_create\<lparr>Meta := AnyUnsupported (UnsupportedTypeError ''chan int'')\<rparr>))
     = Inl (UnsupportedTypeError ''chan int'')\<close>
  by (simp add: Marshal_def body_json_def marshal_struct_def ShortLinkCreateRequest_fields_def
        example_create_def field_def omitempty_ptr_def omitempty_ints_def omitempty_any_def)

theorem doRequestRaw_marshal_error_witness:
  \<open>Marshal (ShortLinkCreateBody (example_create\<lparr>Meta := AnyUnsupported (UnsupportedTypeError ''chan int'')\<rparr>))
     = Inl (UnsupportedTypeError ''chan int'')
   \<and> doRequestRaw (answering 200 ''{}'') (NewClient ''key'') MethodPost ''/api/v1/link/shorten'' None
        (Some (ShortLinkCreateBody (example_create\<lparr>Meta := AnyUnsupported (UnsupportedTypeError ''chan int'')\<rparr>)))
     = (Inl (UnsupportedTypeError ''chan int''), [])\<close>
  using doRequestRaw_marshal_error [OF Marshal_unsupported] Marshal_unsupported by simp

subsection \<open>What is handed to the transport\<close>

lemma doRequestRaw_sent:
  assumes \<open>(case body of None \<Rightarrow> Inr [] | Some b \<Rightarrow> Marshal b) = Inr reqBody\<close>
  shows \<open>snd (doRequestRaw h c method path query body) =
           (if NewRequest_err h method (requestURL c path query) = None
            then [newRequest c method path query reqBody] else [])\<close>
  using assms by (auto simp: doRequestRaw_def Let_def split: sum.splits)

lemma doRequest_sent:
  \<open>snd (doRequest h unmarshal c method path query body result)
     = snd (doRequestRaw h c method path query body)\<close>
  by (auto simp: doRequest_def split: prod.splits sum.splits target.splits)

lemma error_of_snd: \<open>snd (error_of r) = snd r\<close>
  by (simp add: error_of_def)

lemma doRequestRaw_sent_URL:
  \<open>req \<in> set (snd (doRequestRaw h c method path query body)) \<Longrightarrow> URL req = requestURL c path query\<close>
  by (auto simp: doRequestRaw_def Let_def newRequest_def split: sum.splits option.splits if_splits)

lemma TrimRight_api: \<open>TrimRight ''https://api.t.ly'' ''/'' = ''https://api.t.ly''\<close>
  by code_simp

subsection \<open>Statistics\<close>

lemma stats_url:
  \<open>requestURL c ''/api/v1/link/stats''
        (Some (GetStatsWithRange_query \<lparr>ShortURL = shortURL, StartDate = [], EndDate = []\<rparr>))
     = TrimRight (BaseURL c) ''/'' @ ''/api/v1/link/stats?short_url='' @ QueryEscape shortURL\<close>
  by (simp add: GetStatsWithRange_query_def requestURL_def Values_len_single
        Values_Encode_single QueryEscape_short_url)

lemma GetStatsWithRange_no_dates:
  \<open>GetStatsWithRange h unmarshal stats c \<lparr>ShortURL = shortURL, StartDate = [], EndDate = []\<rparr> =
     (case NewRequest_err h ''GET''
             (TrimRight (BaseURL c) ''/'' @ ''/api/v1/link/stats?short_url='' @ QueryEscape shortURL) of
        Some err \<Rightarrow> (Inl err, [])
      | None \<Rightarrow>
          (case Do h \<lparr>Method = ''GET'',
                      URL = TrimRight (BaseURL c) ''/'' @ ''/api/v1/link/stats?short_url=''
                            @ QueryEscape shortURL,
                      Header = auth_headers (APIKey c), ReqBody = []\<rparr> of
             Inl err \<Rightarrow> Inl err
           | Inr resp \<Rightarrow>
               (case Body resp of
                  Inl readErr \<Rightarrow> Inl readErr
                | Inr data \<Rightarrow>
                    if StatusCode resp < 200 \<or> 300 \<le> StatusCode resp
                    then Inl (APIError (StatusCode resp) data)
                    else if length (TrimSpace data) = 0 then Inr stats
                    else unmarshal data stats),
           [\<lparr>Method = ''GET'',
             URL = TrimRight (BaseURL c) ''/'' @ ''/api/v1/link/stats?short_url=''
                   @ QueryEscape shortURL,
             Header = auth_headers (APIKey c), ReqBody = []\<rparr>]))\<close>
  by (simp add: GetStatsWithRange_def typed_result_def doRequest_def doRequestRaw_def stats_url
        newRequest_def MethodGet_def auth_headers_def is_nil_def Let_def
        split: option.splits sum.splits)

text \<open>
  Claim C10. \<open>GetStats(shortURL)\<close> and \<open>GetStatsWithRange\<close> at the request that holds
  this short URL and no dates do the same: the query they build has the one key
  \<open>short_url\<close>; unless http.NewRequest refuses the URL (then its error is returned
  and nothing is sent), each sends the one request with method GET, the URL the base URL
  with the path \<open>/api/v1/link/stats\<close> and \<open>?short_url=\<close> with the escaped short
  URL, the three headers and an empty body; and each returns the error of the transport
  or of reading the body, the \<open>APIError\<close> of a status outside 200 to 299, the zero
  statistics for a blank body, and otherwise what the decoder makes of the body.
\<close>

theorem GetStats_is_GetStatsWithRange:
  \<open>GetStats h unmarshal stats c shortURL
     = GetStatsWithRange h unmarshal stats c \<lparr>ShortURL = shortURL, StartDate = [], EndDate = []\<rparr>
   \<and> GetStatsWithRange_query \<lparr>ShortURL = shortURL, StartDate = [], EndDate = []\<rparr>
     = [(''short_url'', [shortURL])]
   \<and> GetStats h unmarshal stats c shortURL =
     (case NewRequest_err h ''GET''
             (TrimRight (BaseURL c) ''/'' @ ''/api/v1/link/stats?short_url='' @ QueryEscape shortURL) of
        Some err \<Rightarrow> (Inl err, [])
      | None \<Rightarrow>
          (case Do h \<lparr>Method = ''GET'',
                      URL = TrimRight (BaseURL c) ''/'' @ ''/api/v1/link/stats?short_url=''
                            @ QueryEscape shortURL,
                      Header = auth_headers (APIKey c), ReqBody = []\<rparr> of
             Inl err \<Rightarrow> Inl err
           | Inr resp \<Rightarrow>
               (case Body resp of
                  Inl readErr \<Rightarrow> Inl readErr
                | Inr data \<Rightarrow>
                    if StatusCode resp < 200 \<or> 300 \<le> StatusCode resp
                    then Inl (APIError (StatusCode resp) data)
                    else if length (TrimSpace data) = 0 then Inr stats
                    else unmarshal data stats),
           [\<lparr>Method = ''GET'',
             URL = TrimRight (BaseURL c) ''/'' @ ''/api/v1/link/stats?short_url=''
                   @ QueryEscape shortURL,
             Header = auth_headers (APIKey c), ReqBody = []\<rparr>]))
   \<and> GetStatsWithRange h unmarshal stats c \<lparr>ShortURL = shortURL, StartDate = [], EndDate = []\<rparr> =
     (case NewRequest_err h ''GET''
             (TrimRight (BaseURL c) ''/'' @ ''/api/v1/link/stats?short_url='' @ QueryEscape shortURL) of
        Some err \<Rightarrow> (Inl err, [])
      | None \<Rightarrow>
          (case Do h \<lparr>Method = ''GET'',
                      URL = TrimRight (BaseURL c) ''/'' @ ''/api/v1/link/stats?short_url=''
                            @ QueryEscape shortURL,
                      Header = auth_headers (APIKey c), ReqBody = []\<rparr> of
             Inl err \<Rightarrow> Inl err
           | Inr resp \<Rightarrow>
               (case Body resp of
                  Inl readErr \<Rightarrow> Inl readErr
                | Inr data \<Rightarrow>
                    if StatusCode resp < 200 \<or> 300 \<le> StatusCode resp
                    then Inl (APIError (StatusCode resp) data)
                    else if length (TrimSpace data) = 0 then Inr stats
                    else unmarshal data stats),
           [\<lparr>Method = ''GET'',
             URL = TrimRight (BaseURL c) ''/'' @ ''/api/v1/link/stats?short_url=''
                   @ QueryEscape shortURL,
             Header = auth_headers (APIKey c), ReqBody = []\<rparr>]))\<close>
proof -
  have q: \<open>GetStatsWithRange_query \<lparr>ShortURL = shortURL, StartDate = [], EndDate = []\<rparr>
      = [(''short_url'', [shortURL])]\<close>
    by (simp add: GetStatsWithRange_query_def)
  show ?thesis
    unfolding GetStats_def
    by (intro conjI refl q GetStatsWithRange_no_dates)
qed

lemma TrimSpace_clicks: \<open>TrimSpace ''{"clicks":3}'' = ''{"clicks":3}''\<close>
  by code_simp

lemma QueryEscape_abc: \<open>QueryEscape ''https://t.ly/abc'' = ''https%3A%2F%2Ft.ly%2Fabc''\<close>
  by code_simp

lemma answering_simps:
  \<open>NewRequest_err (answering sc data) m u = None\<close>
  \<open>Do (answering sc data) req = Inr \<lparr>StatusCode = sc, Body = Inr data\<rparr>\<close>
  by (simp_all add: answering_def)

theorem GetStats_is_GetStatsWithRange_witness:
  \<open>GetStats (answering 200 ''{"clicks":3}'') (\<lambda>data v. Inr (length data)) 0 (NewClient ''key'')
      ''https://t.ly/abc''
     = (Inr 12,
        [\<lparr>Method = ''GET'',
          URL = ''https://api.t.ly/api/v1/link/stats?short_url=https%3A%2F%2Ft.ly%2Fabc'',
          Header = auth_headers ''key'', ReqBody = []\<rparr>])
   \<and> GetStatsWithRange (answering 404 ''gone'') failing_decoder (0::nat) (NewClient ''key'')
      \<lparr>ShortURL = ''https://t.ly/abc'', StartDate = [], EndDate = []\<rparr>
     = (Inl (APIError 404 ''gone''),
        [\<lparr>Method = ''GET'',
          URL = ''https://api.t.ly/api/v1/link/stats?short_url=https%3A%2F%2Ft.ly%2Fabc'',
          Header = auth_headers ''key'', ReqBody = []\<rparr>])\<close>
proof -
  have b: \<open>TrimRight (BaseURL (NewClient ''key'')) ''/'' = ''https://api.t.ly''\<close>
    by (simp add: NewClient_def TrimRight_api)
  have k: \<open>APIKey (NewClient ''key'') = ''key''\<close>
    by (simp add: NewClient_def)
  have l: \<open>length (''{"clicks":3}'' :: string) = 12\<close>
    by simp
  note t = GetStats_is_GetStatsWithRange [of \<open>answering 200 ''{"clicks":3}''\<close>
      \<open>\<lambda>data v. Inr (length data)\<close> \<open>0::nat\<close> \<open>NewClient ''key''\<close> \<open>''https://t.ly/abc''\<close>]
  note u = GetStats_is_GetStatsWithRange [of \<open>answering 404 ''gone''\<close> failing_decoder \<open>0::nat\<close>
      \<open>NewClient ''key''\<close> \<open>''https://t.ly/abc''\<close>]
  have one: \<open>GetStats (answering 200 ''{"clicks":3}'') (\<lambda>data v. Inr (length data)) 0 (NewClient ''key'')
      ''https://t.ly/abc''
     = (Inr 12,
        [\<lparr>Method = ''GET'',
          URL = ''https://api.t.ly/api/v1/link/stats?short_url=https%3A%2F%2Ft.ly%2Fabc'',
          Header = auth_headers ''key'', ReqBody = []\<rparr>])\<close>
    by (subst t [THEN conjunct2, THEN conjunct2, THEN conjunct1])
       (simp add: answering_simps b k l QueryEscape_abc TrimSpace_clicks del: TrimSpace.simps)
  have two: \<open>GetStatsWithRange (answering 404 ''gone'') failing_decoder (0::nat) (NewClient ''key'')
      \<lparr>ShortURL = ''https://t.ly/abc'', StartDate = [], EndDate = []\<rparr>
     = (Inl (APIError 404 ''gone''),
        [\<lparr>Method = ''GET'',
          URL = ''https://api.t.ly/api/v1/link/stats?short_url=https%3A%2F%2Ft.ly%2Fabc'',
          Header = auth_headers ''key'', ReqBody = []\<rparr>])\<close>
    by (subst u [THEN conjunct2, THEN conjunct2, THEN conjunct2])
       (simp add: answering_simps b k QueryEscape_abc del: TrimSpace.simps)
  from one two show ?thesis by (rule conjI)
qed

subsection \<open>Deleting\<close>

lemma map_members_single: \<open>map_members [(k, s)] = [(k, JString s)]\<close>
  by (simp add: map_members_def)

lemma json_quote_short_url: \<open>json_quote ''short_url'' = ''"short_url"''\<close>
  by code_simp

lemma Marshal_short_url:
  \<open>Marshal (MapBody [(''short_url'', s)]) = Inr (''{"short_url":'' @ json_quote s @ ''}'')\<close>
  by (simp add: Marshal_def body_json_def map_members_single json_quote_short_url)

text \<open>
  Claim C7. \<open>DeleteShortLink(shortURL)\<close> sends, unless http.NewRequest refuses the
  URL, one request: method DELETE, the URL the base URL with the path \<open>/api/v1/link\<close>
  and no query, and as its body the JSON object with the one member \<open>short_url\<close> whose
  value is the short URL as a JSON string. \<open>DeletePixel\<close>, \<open>DeleteTag\<close> and
  \<open>DeleteUTMPreset\<close> send, on the same condition, one DELETE request each, with the
  identifier in decimal as the last segment of the path and an empty body. A method whose
  URL is refused sends nothing.
\<close>

theorem delete_requests:
  \<open>snd (DeleteShortLink h c shortURL) =
     (if NewRequest_err h ''DELETE'' (TrimRight (BaseURL c) ''/'' @ ''/api/v1/link'') = None
      then [\<lparr>Method = ''DELETE'', URL = TrimRight (BaseURL c) ''/'' @ ''/api/v1/link'',
              Header = auth_headers (APIKey c),
              ReqBody = ''{"short_url":'' @ json_quote shortURL @ ''}''\<rparr>]
      else [])
   \<and> snd (DeletePixel h c n) =
     (if NewRequest_err h ''DELETE'' (TrimRight (BaseURL c) ''/'' @ ''/api/v1/link/pixel/'' @ Itoa n) = None
      then [\<lparr>Method = ''DELETE'', URL = TrimRight (BaseURL c) ''/'' @ ''/api/v1/link/pixel/'' @ Itoa n,
              Header = auth_headers (APIKey c), ReqBody = []\<rparr>]
      else [])
   \<and> snd (DeleteTag h c n) =
     (if NewRequest_err h ''DELETE'' (TrimRight (BaseURL c) ''/'' @ ''/api/v1/link/tag/'' @ Itoa n) = None
      then [\<lparr>Method = ''DELETE'', URL = TrimRight (BaseURL c) ''/'' @ ''/api/v1/link/tag/'' @ Itoa n,
              Header = auth_headers (APIKey c), ReqBody = []\<rparr>]
      else [])
   \<and> snd (DeleteUTMPreset h c n) =
     (if NewRequest_err h ''DELETE'' (TrimRight (BaseURL c) ''/'' @ ''/api/v1/link/utm-preset/'' @ Itoa n)
           = None
      then [\<lparr>Method = ''DELETE'',
              URL = TrimRight (BaseURL c) ''/'' @ ''/api/v1/link/utm-preset/'' @ Itoa n,
              Header = auth_headers (APIKey c), ReqBody = []\<rparr>]
      else [])\<close>
proof -
  have a: \<open>snd (DeleteShortLink h c shortURL) =
      (if NewRequest_err h MethodDelete (requestURL c ''/api/v1/link'' None) = None
       then [newRequest c MethodDelete ''/api/v1/link'' None (''{"short_url":'' @ json_quote shortURL @ ''}'')]
       else [])\<close>
    unfolding DeleteShortLink_def Let_def error_of_snd doRequest_sent
    by (rule doRequestRaw_sent) (simp add: Marshal_short_url)
  have b: \<open>snd (DeletePixel h c n) =
      (if NewRequest_err h MethodDelete (requestURL c (''/api/v1/link/pixel/'' @ Itoa n) None) = None
       then [newRequest c MethodDelete (''/api/v1/link/pixel/'' @ Itoa n) None []] else [])\<close>
    unfolding DeletePixel_def error_of_snd doRequest_sent
    by (rule doRequestRaw_sent) simp
  have c: \<open>snd (DeleteTag h c n) =
      (if NewRequest_err h MethodDelete (requestURL c (''/api/v1/link/tag/'' @ Itoa n) None) = None
       then [newRequest c MethodDelete (''/api/v1/link/tag/'' @ Itoa n) None []] else [])\<close>
    unfolding DeleteTag_def error_of_snd doRequest_sent
    by (rule doRequestRaw_sent) simp
  have d: \<open>snd (DeleteUTMPreset h c n) =
      (if NewRequest_err h MethodDelete (requestURL c (''/api/v1/link/utm-preset/'' @ Itoa n) None) = None
       then [newRequest c MethodDelete (''/api/v1/link/utm-preset/'' @ Itoa n) None []] else [])\<close>
    unfolding DeleteUTMPreset_def error_of_snd doRequest_sent
    by (rule doRequestRaw_sent) simp
  show ?thesis
    unfolding a b c d
    by (simp add: newRequest_def requestURL_def MethodDelete_def auth_headers_def)
qed

theorem delete_requests_witness:
  \<open>snd (DeleteShortLink (answering 200 []) (NewClient ''key'') ''https://t.ly/abc'') =
      [\<lparr>Method = ''DELETE'', URL = ''https://api.t.ly/api/v1/link'', Header = auth_headers ''key'',
        ReqBody = ''{"short_url":"https://t.ly/abc"}''\<rparr>]
   \<and> snd (DeletePixel (answering 200 []) (NewClient ''key'') 42) =
      [\<lparr>Method = ''DELETE'', URL = ''https://api.t.ly/api/v1/link/pixel/42'',
        Header = auth_headers ''key'', ReqBody = []\<rparr>]\<close>
proof -
  have q: \<open>json_quote ''https://t.ly/abc'' = ''"https://t.ly/abc"''\<close>
    by code_simp
  have i: \<open>Itoa 42 = ''42''\<close>
    by code_simp
  from delete_requests [of \<open>answering 200 []\<close> \<open>NewClient ''key''\<close> \<open>''https://t.ly/abc''\<close> 42]
  show ?thesis
    by (simp add: q i NewClient_def TrimRight_api answering_def)
qed

subsection \<open>QR codes\<close>

lemma keys_qr: \<open>Values_keys [(''short_url'', [s]), (''format'', [f])] = [''format'', ''short_url'']\<close>
proof -
  have \<open>sort (remdups [''short_url'', ''format'']) = [''format'', ''short_url'']\<close>
    by code_simp
  then show ?thesis by (simp add: Values_keys_def)
qed

lemma QueryEscape_format: \<open>QueryEscape ''format'' = ''format''\<close>
  by code_simp

lemma QueryEscape_eps: \<open>QueryEscape ''eps'' = ''eps''\<close>
  by code_simp

lemma Encode_qr:
  \<open>Values_Encode [(''short_url'', [s]), (''format'', [''eps''])] = ''format=eps&short_url='' @ QueryEscape s\<close>
  by (simp add: Values_Encode_def Values_pairs_def keys_qr Values_lookup_def QueryEscape_format
        QueryEscape_eps QueryEscape_short_url)

lemma GetQRCode_query_eps:
  \<open>Format reqData = ''eps'' \<Longrightarrow> Output reqData = [] \<Longrightarrow>
     GetQRCode_query reqData = [(''short_url'', [ShortURL_QR reqData]), (''format'', [''eps''])]\<close>
  by (simp add: GetQRCode_query_def)

lemma Values_len_qr: \<open>Values_len [(''short_url'', [s]), (''format'', [f])] = 2\<close>
  by (simp add: Values_len_def keys_qr)

text \<open>
  Claim C8, as the code has it. For a \<open>QRCodeRequest\<close> with \<open>Format = "eps"\<close> and an
  empty \<open>Output\<close>, \<open>GetQRCode\<close> sends, unless http.NewRequest refuses the URL, one
  GET request whose query holds \<open>format\<close> and \<open>short_url\<close> and no \<open>output\<close>.
  The keys stand in sorted order, so the query is \<open>format=eps&short_url=...\<close> with
  the short URL escaped, not \<open>short_url=...&format=eps\<close>. When the answer to that
  request has a status from 200 to 299, \<open>GetQRCode\<close> returns the bytes of its body as
  they are.
\<close>

theorem GetQRCode_eps:
  assumes \<open>Format reqData = ''eps''\<close> and \<open>Output reqData = []\<close>
  shows \<open>snd (GetQRCode h c reqData) =
           (if NewRequest_err h ''GET''
                 (TrimRight (BaseURL c) ''/'' @ ''/api/v1/link/qr-code?format=eps&short_url=''
                  @ QueryEscape (ShortURL_QR reqData)) = None
            then [\<lparr>Method = ''GET'',
                    URL = TrimRight (BaseURL c) ''/'' @ ''/api/v1/link/qr-code?format=eps&short_url=''
                          @ QueryEscape (ShortURL_QR reqData),
                    Header = auth_headers (APIKey c), ReqBody = []\<rparr>]
            else [])
         \<and> (\<forall>req resp data.
               snd (GetQRCode h c reqData) = [req] \<and> Do h req = Inr resp \<and> Body resp = Inr data
               \<and> 200 \<le> StatusCode resp \<and> StatusCode resp \<le> 299
               \<longrightarrow> fst (GetQRCode h c reqData) = Inr data)\<close>
proof -
  have s: \<open>snd (GetQRCode h c reqData) =
      (if NewRequest_err h MethodGet
            (requestURL c ''/api/v1/link/qr-code'' (Some (GetQRCode_query reqData))) = None
       then [newRequest c MethodGet ''/api/v1/link/qr-code'' (Some (GetQRCode_query reqData)) []]
       else [])\<close>
    unfolding GetQRCode_def by (rule doRequestRaw_sent) simp
  have u: \<open>requestURL c ''/api/v1/link/qr-code'' (Some (GetQRCode_query reqData)) =
      TrimRight (BaseURL c) ''/'' @ ''/api/v1/link/qr-code?format=eps&short_url=''
      @ QueryEscape (ShortURL_QR reqData)\<close>
    by (simp add: requestURL_def GetQRCode_query_eps [OF assms] Values_len_qr Encode_qr)
  have r: \<open>fst (GetQRCode h c reqData) = Inr data\<close>
    if \<open>snd (GetQRCode h c reqData) = [req]\<close> \<open>Do h req = Inr resp\<close> \<open>Body resp = Inr data\<close>
       \<open>200 \<le> StatusCode resp\<close> \<open>StatusCode resp \<le> 299\<close> for req resp data
    using that
    by (auto simp: GetQRCode_def doRequestRaw_def Let_def split: option.splits sum.splits if_splits)
  show ?thesis
    using r unfolding s u
    by (auto simp: newRequest_def u MethodGet_def auth_headers_def)
qed

theorem GetQRCode_eps_witness:
  \<open>Format example_qr = ''eps'' \<and> Output example_qr = []
   \<and> GetQRCode (answering 200 ''%!PS-Adobe-3.0 EPSF-3.0'') (NewClient ''key'') example_qr =
       (Inr ''%!PS-Adobe-3.0 EPSF-3.0'',
        [\<lparr>Method = ''GET'',
          URL = ''https://api.t.ly/api/v1/link/qr-code?format=eps&short_url=https%3A%2F%2Ft.ly%2Fabc'',
          Header = auth_headers ''key'', ReqBody = []\<rparr>])\<close>
proof -
  have f: \<open>Format example_qr = ''eps''\<close> and o: \<open>Output example_qr = []\<close>
    by (simp_all add: example_qr_def)
  have e: \<open>QueryEscape (ShortURL_QR example_qr) = ''https%3A%2F%2Ft.ly%2Fabc''\<close>
    by code_simp
  from GetQRCode_eps [OF f o, of \<open>answering 200 ''%!PS-Adobe-3.0 EPSF-3.0''\<close> \<open>NewClient ''key''\<close>]
  have \<open>snd (GetQRCode (answering 200 ''%!PS-Adobe-3.0 EPSF-3.0'') (NewClient ''key'') example_qr) =
          [\<lparr>Method = ''GET'',
            URL = ''https://api.t.ly/api/v1/link/qr-code?format=eps&short_url=https%3A%2F%2Ft.ly%2Fabc'',
            Header = auth_headers ''key'', ReqBody = []\<rparr>]
        \<and> fst (GetQRCode (answering 200 ''%!PS-Adobe-3.0 EPSF-3.0'') (NewClient ''key'') example_qr)
            = Inr ''%!PS-Adobe-3.0 EPSF-3.0''\<close>
    by (simp add: e TrimRight_api NewClient_def answering_def)
  with f o show ?thesis
    by (simp add: prod_eq_iff)
qed

theorem GetQRCode_order_counterexample:
  \<open>map URL (snd (GetQRCode (answering 200 []) (NewClient ''key'') example_qr)) =
      [''https://api.t.ly/api/v1/link/qr-code?format=eps&short_url=https%3A%2F%2Ft.ly%2Fabc'']
   \<and> \<not> sublist ''short_url=https%3A%2F%2Ft.ly%2Fabc&format=eps''
          (concat (map URL (snd (GetQRCode (answering 200 []) (NewClient ''key'') example_qr))))\<close>
  by code_simp

subsection \<open>The request URL\<close>

lemma TrimRight_decomp:
  \<open>s = TrimRight s ''/'' @ replicate (length (takeWhile (\<lambda>c. c = CHR ''/'') (rev s))) (CHR ''/'')\<close>
proof -
  let ?P = \<open>\<lambda>c. c = CHR ''/''\<close>
  have \<open>takeWhile ?P (rev s) = replicate (length (takeWhile ?P (rev s))) (CHR ''/'')\<close>
    by (rule replicate_length_same [symmetric]) (auto dest: set_takeWhileD)
  then have r: \<open>rev (takeWhile ?P (rev s)) = replicate (length (takeWhile ?P (rev s))) (CHR ''/'')\<close>
    by (metis rev_replicate)
  have \<open>s = rev (takeWhile ?P (rev s) @ dropWhile ?P (rev s))\<close>
    by simp
  also have \<open>\<dots> = rev (dropWhile ?P (rev s)) @ rev (takeWhile ?P (rev s))\<close>
    by (simp only: rev_append)
  finally show ?thesis
    using r by (simp add: TrimRight_def)
qed

lemma TrimRight_no_slash:
  \<open>TrimRight s ''/'' = [] \<or> last (TrimRight s ''/'') \<noteq> CHR ''/''\<close>
proof (cases \<open>dropWhile (\<lambda>c. c = CHR ''/'') (rev s)\<close>)
  case Nil
  then show ?thesis by (simp add: TrimRight_def)
next
  case (Cons a as)
  then have \<open>a \<noteq> CHR ''/''\<close>
    using hd_dropWhile [of \<open>\<lambda>c. c = CHR ''/''\<close> \<open>rev s\<close>] by auto
  with Cons show ?thesis by (simp add: TrimRight_def)
qed

lemma TrimRight_id: \<open>s = [] \<or> last s \<noteq> CHR ''/'' \<Longrightarrow> TrimRight s ''/'' = s\<close>
  by (cases s rule: rev_cases) (auto simp: TrimRight_def)

text \<open>
  Claim C9, as the code has it. Every request \<open>doRequestRaw\<close> sends has the URL
  \<open>requestURL\<close>: the base URL without its trailing slashes, then the path, and then,
  only when the query is not \<open>nil\<close> and has at least one key, a question mark and the
  encoded query. Without a query, or with one that has no key, nothing follows the path.
  Trimming removes slashes at the end of the base URL and nothing else, so the URL is
  the base URL followed by the path exactly when the base URL does not end in a slash.
\<close>

theorem requestURL_shape:
  \<open>(\<forall>req \<in> set (snd (doRequestRaw h c method path query body)). URL req = requestURL c path query)
   \<and> requestURL c path None = TrimRight (BaseURL c) ''/'' @ path
   \<and> (Values_len q = 0 \<longrightarrow> requestURL c path (Some q) = TrimRight (BaseURL c) ''/'' @ path)
   \<and> (0 < Values_len q \<longrightarrow>
        requestURL c path (Some q) = TrimRight (BaseURL c) ''/'' @ path @ ''?'' @ Values_Encode q)
   \<and> (\<exists>n. BaseURL c = TrimRight (BaseURL c) ''/'' @ replicate n (CHR ''/''))
   \<and> (TrimRight (BaseURL c) ''/'' = [] \<or> last (TrimRight (BaseURL c) ''/'') \<noteq> CHR ''/'')
   \<and> (BaseURL c = [] \<or> last (BaseURL c) \<noteq> CHR ''/'' \<longrightarrow> TrimRight (BaseURL c) ''/'' = BaseURL c)\<close>
proof -
  have \<open>\<exists>n. BaseURL c = TrimRight (BaseURL c) ''/'' @ replicate n (CHR ''/'')\<close>
    using TrimRight_decomp [of \<open>BaseURL c\<close>] by blast
  then show ?thesis
    using TrimRight_no_slash [of \<open>BaseURL c\<close>] TrimRight_id [of \<open>BaseURL c\<close>]
    by (simp add: doRequestRaw_sent_URL requestURL_def)
qed

theorem requestURL_shape_witness:
  \<open>0 < Values_len [(''short_url'', [''x''])]
   \<and> last (BaseURL (NewClient ''key'')) \<noteq> CHR ''/''
   \<and> requestURL (NewClient ''key'') ''/api/v1/link'' (Some [(''short_url'', [''x''])])
       = ''https://api.t.ly/api/v1/link?short_url=x''
   \<and> requestURL (NewClient ''key'') ''/api/v1/link'' (Some []) = ''https://api.t.ly/api/v1/link''
   \<and> map URL (snd (doRequestRaw (answering 200 []) (NewClient ''key'') MethodGet ''/api/v1/link''
                      None None))
       = [''https://api.t.ly/api/v1/link'']\<close>
proof -
  have l: \<open>0 < Values_len [(''short_url'', [''x''])]\<close>
    by (simp add: Values_len_single)
  have z: \<open>Values_len [] = 0\<close>
    by (simp add: Values_len_def Values_keys_def)
  have b: \<open>last (BaseURL (NewClient ''key'')) \<noteq> CHR ''/''\<close>
    by (simp add: NewClient_def)
  have e: \<open>Values_Encode [(''short_url'', [''x''])] = ''short_url=x''\<close>
    by code_simp
  have s: \<open>snd (doRequestRaw (answering 200 []) (NewClient ''key'') MethodGet ''/api/v1/link'' None None)
            = [newRequest (NewClient ''key'') MethodGet ''/api/v1/link'' None []]\<close>
    by (simp add: doRequestRaw_sent [of None \<open>[]\<close>] answering_def)
  from requestURL_shape [of \<open>answering 200 []\<close> \<open>NewClient ''key''\<close> MethodGet \<open>''/api/v1/link''\<close>
      None None \<open>[(''short_url'', [''x''])]\<close>]
    requestURL_shape [of \<open>answering 200 []\<close> \<open>NewClient ''key''\<close> MethodGet \<open>''/api/v1/link''\<close>
      None None \<open>[]\<close>]
    l z b
  show ?thesis
    by (simp add: e s) (simp add: NewClient_def)
qed

theorem requestURL_base_counterexample:
  \<open>requestURL \<lparr>APIKey = ''key'', BaseURL = ''https://api.t.ly/''\<rparr> ''/api/v1/link'' None
     = ''https://api.t.ly/api/v1/link''
   \<and> requestURL \<lparr>APIKey = ''key'', BaseURL = ''https://api.t.ly/''\<rparr> ''/api/v1/link'' None
     \<noteq> ''https://api.t.ly/'' @ ''/api/v1/link''\<close>
  by code_simp

subsection \<open>Indexed integer filters\<close>

lemma digits_value_snoc: \<open>digits_value (ds @ [c]) = digits_value ds * 10 + (byte c - 48)\<close>
  by (simp add: digits_value_def)

lemma digits_value_FormatUint: \<open>digits_value (FormatUint n) = n\<close>
proof (induction n rule: FormatUint.induct)
  case (1 n)
  show ?case
  proof (cases \<open>n < 10\<close>)
    case True
    then show ?thesis
      by (subst FormatUint.simps) (simp add: digits_value_def byte_chr)
  next
    case False
    have \<open>digits_value (FormatUint n) = digits_value (FormatUint (n div 10)) * 10 + n mod 10\<close>
      using False by (subst FormatUint.simps) (simp add: digits_value_snoc byte_chr)
    with 1 False show ?thesis by simp
  qed
qed

lemma FormatUint_inj: \<open>FormatUint m = FormatUint n \<Longrightarrow> m = n\<close>
  by (metis digits_value_FormatUint)

lemma Itoa_int_inj: \<open>Itoa (int i) = Itoa (int j) \<Longrightarrow> i = j\<close>
  by (simp add: Itoa_def FormatUint_inj)

lemma map_of_Values_Set:
  \<open>map_of (Values_Set q k v) k' = (if k' = k then Some [v] else map_of q k')\<close>
  by (induction q) auto

lemma Values_lookup_Set:
  \<open>Values_lookup (Values_Set q k v) k' = (if k' = k then [v] else Values_lookup q k')\<close>
  by (simp add: Values_lookup_def map_of_Values_Set)


lemma indexed_key_inj: \<open>indexed_key key i = indexed_key key j \<Longrightarrow> i = j\<close>
  by (simp add: indexed_key_def Itoa_int_inj)

lemma addIndexedIntSlice_from_other:
  \<open>(\<And>j. i \<le> j \<Longrightarrow> j < i + length vs \<Longrightarrow> k \<noteq> indexed_key key j)
    \<Longrightarrow> Values_lookup (addIndexedIntSlice_from i q key vs) k = Values_lookup q k\<close>
proof (induction vs arbitrary: i q)
  case Nil
  then show ?case by simp
next
  case (Cons v vs)
  have \<open>Values_lookup (addIndexedIntSlice_from (Suc i) (Values_Set q (indexed_key key i) (Itoa v)) key vs) k
        = Values_lookup (Values_Set q (indexed_key key i) (Itoa v)) k\<close>
    by (rule Cons.IH) (use Cons.prems in auto)
  moreover have \<open>k \<noteq> indexed_key key i\<close>
    using Cons.prems [of i] by simp
  ultimately show ?case
    by (simp add: Values_lookup_Set)
qed

lemma addIndexedIntSlice_from_at:
  \<open>j < length vs \<Longrightarrow>
     Values_lookup (addIndexedIntSlice_from i q key vs) (indexed_key key (i + j)) = [Itoa (vs ! j)]\<close>
proof (induction vs arbitrary: i q j)
  case Nil
  then show ?case by simp
next
  case (Cons v vs)
  show ?case
  proof (cases j)
    case 0
    have \<open>Values_lookup (addIndexedIntSlice_from (Suc i) (Values_Set q (indexed_key key i) (Itoa v)) key vs)
            (indexed_key key i)
          = Values_lookup (Values_Set q (indexed_key key i) (Itoa v)) (indexed_key key i)\<close>
      by (rule addIndexedIntSlice_from_other) (auto dest: indexed_key_inj)
    then show ?thesis
      using 0 by (simp add: Values_lookup_Set)
  next
    case (Suc j')
    then have \<open>j' < length vs\<close> using Cons.prems by simp
    from Cons.IH [OF this, of \<open>Suc i\<close>] Suc show ?thesis
      by simp
  qed
qed

lemma sublist_Join: \<open>x \<in> set xs \<Longrightarrow> sublist x (Join xs sep)\<close>
proof (induction xs sep rule: Join.induct)
  case (1 sep)
  then show ?case by simp
next
  case (2 x' sep)
  then show ?case by simp
next
  case (3 x' y ys sep)
  show ?case
  proof (cases \<open>x = x'\<close>)
    case True
    then show ?thesis by simp
  next
    case False
    with 3 have \<open>sublist x (Join (y # ys) sep)\<close> by simp
    then have \<open>sublist x (sep @ Join (y # ys) sep)\<close> by (simp add: sublist_append)
    then have \<open>sublist x (x' @ sep @ Join (y # ys) sep)\<close> by (simp add: sublist_append)
    then show ?thesis by simp
  qed
qed

lemma Values_keys_set: \<open>set (Values_keys q) = fst ` set q\<close>
  by (simp add: Values_keys_def)

lemma Values_lookup_in_keys: \<open>v \<in> set (Values_lookup q k) \<Longrightarrow> k \<in> set (Values_keys q)\<close>
proof -
  assume \<open>v \<in> set (Values_lookup q k)\<close>
  then obtain vs where \<open>map_of q k = Some vs\<close>
    by (cases \<open>map_of q k\<close>) (auto simp: Values_lookup_def)
  then have \<open>(k, vs) \<in> set q\<close> by (rule map_of_SomeD)
  then have \<open>fst (k, vs) \<in> fst ` set q\<close> by (rule imageI)
  then show ?thesis by (simp add: Values_keys_set)
qed

lemma Values_Encode_pair:
  \<open>v \<in> set (Values_lookup q k) \<Longrightarrow> sublist (QueryEscape k @ ''='' @ QueryEscape v) (Values_Encode q)\<close>
proof -
  assume v: \<open>v \<in> set (Values_lookup q k)\<close>
  then have \<open>k \<in> set (Values_keys q)\<close> by (rule Values_lookup_in_keys)
  with v have \<open>QueryEscape k @ ''='' @ QueryEscape v \<in> set (Values_pairs q)\<close>
    by (auto simp: Values_pairs_def)
  then show ?thesis
    unfolding Values_Encode_def by (rule sublist_Join)
qed

lemma addIndexedIntSlice_at:
  \<open>i < length vs \<Longrightarrow>
     Values_lookup (addIndexedIntSlice q key vs) (indexed_key key i) = [Itoa (vs ! i)]\<close>
  using addIndexedIntSlice_from_at [of i vs 0 q key] by (simp add: addIndexedIntSlice_def)

lemma addIndexedIntSlice_other:
  \<open>(\<And>j. k \<noteq> indexed_key key j) \<Longrightarrow>
     Values_lookup (addIndexedIntSlice q key vs) k = Values_lookup q k\<close>
  unfolding addIndexedIntSlice_def by (rule addIndexedIntSlice_from_other) simp

lemma indexed_key_neq:
  \<open>indexed_key ''tag_ids'' i \<noteq> indexed_key ''pixel_ids'' j\<close>
  \<open>indexed_key ''tag_ids'' i \<noteq> indexed_key ''domains'' j\<close>
  \<open>indexed_key ''pixel_ids'' i \<noteq> indexed_key ''domains'' j\<close>
  \<open>indexed_key ''tag_ids'' i \<noteq> ''start_date''\<close>
  \<open>indexed_key ''tag_ids'' i \<noteq> ''end_date''\<close>
  \<open>indexed_key ''tag_ids'' i \<noteq> ''page''\<close>
  \<open>indexed_key ''pixel_ids'' i \<noteq> ''start_date''\<close>
  \<open>indexed_key ''pixel_ids'' i \<noteq> ''end_date''\<close>
  \<open>indexed_key ''pixel_ids'' i \<noteq> ''page''\<close>
  \<open>indexed_key ''domains'' i \<noteq> ''page''\<close>
  by (simp_all add: indexed_key_def)

lemma ListShortLinksDetailed_query_lookup:
  \<open>i < length (TagIDs opts) \<Longrightarrow>
     Values_lookup (ListShortLinksDetailed_query opts) (indexed_key ''tag_ids'' i)
       = [Itoa (TagIDs opts ! i)]\<close>
  \<open>i < length (PixelIDs opts) \<Longrightarrow>
     Values_lookup (ListShortLinksDetailed_query opts) (indexed_key ''pixel_ids'' i)
       = [Itoa (PixelIDs opts ! i)]\<close>
  \<open>i < length (Domains opts) \<Longrightarrow>
     Values_lookup (ListShortLinksDetailed_query opts) (indexed_key ''domains'' i)
       = [Itoa (Domains opts ! i)]\<close>
  by (simp_all add: ListShortLinksDetailed_query_def Let_def Values_lookup_Set
        addIndexedIntSlice_at addIndexedIntSlice_other indexed_key_neq indexed_key_neq [symmetric])

text \<open>
  Claim C3, as the code has it. \<open>addIndexedIntSlice\<close> stores the \<open>i\<close>-th value, in
  decimal, under the key \<open>key[i]\<close>, the index counting the values in input order, and
  the encoded query holds the pair of that key and that value, both escaped. This holds
  for the three filters of \<open>ListShortLinksDetailed\<close> (\<open>tag_ids\<close>, \<open>pixel_ids\<close>,
  \<open>domains\<close>). Escaping writes the brackets of a key as \<open>%5B\<close> and \<open>%5D\<close>:
  the values 5 and 9 under \<open>tag_ids\<close> are encoded as
  \<open>tag_ids%5B0%5D=5&tag_ids%5B1%5D=9\<close>, in that order, and not with literal brackets.
\<close>

theorem indexed_filters:
  \<open>(\<forall>i < length vs.
       Values_lookup (addIndexedIntSlice q key vs) (indexed_key key i) = [Itoa (vs ! i)]
     \<and> sublist (QueryEscape (indexed_key key i) @ ''='' @ QueryEscape (Itoa (vs ! i)))
               (Values_Encode (addIndexedIntSlice q key vs)))
   \<and> (\<forall>i < length (TagIDs opts).
        sublist (QueryEscape (indexed_key ''tag_ids'' i) @ ''='' @ QueryEscape (Itoa (TagIDs opts ! i)))
                (Values_Encode (ListShortLinksDetailed_query opts)))
   \<and> (\<forall>i < length (PixelIDs opts).
        sublist (QueryEscape (indexed_key ''pixel_ids'' i) @ ''='' @ QueryEscape (Itoa (PixelIDs opts ! i)))
                (Values_Encode (ListShortLinksDetailed_query opts)))
   \<and> (\<forall>i < length (Domains opts).
        sublist (QueryEscape (indexed_key ''domains'' i) @ ''='' @ QueryEscape (Itoa (Domains opts ! i)))
                (Values_Encode (ListShortLinksDetailed_query opts)))
   \<and> QueryEscape (indexed_key ''tag_ids'' 0) = ''tag_ids%5B0%5D''
   \<and> Values_Encode (addIndexedIntSlice [] ''tag_ids'' [5, 9]) = ''tag_ids%5B0%5D=5&tag_ids%5B1%5D=9''\<close>
proof -
  have a: \<open>QueryEscape (indexed_key ''tag_ids'' 0) = ''tag_ids%5B0%5D''\<close>
    by code_simp
  have b: \<open>Values_Encode (addIndexedIntSlice [] ''tag_ids'' [5, 9]) = ''tag_ids%5B0%5D=5&tag_ids%5B1%5D=9''\<close>
    by code_simp
  show ?thesis
    by (intro conjI allI impI a b Values_Encode_pair addIndexedIntSlice_at)
       (simp_all add: addIndexedIntSlice_at ListShortLinksDetailed_query_lookup)
qed

theorem indexed_filters_witness:
  \<open>(1::nat) < length [5, 9 :: int]
   \<and> Values_lookup (addIndexedIntSlice [] ''tag_ids'' [5, 9]) ''tag_ids[1]'' = [''9'']
   \<and> sublist ''tag_ids%5B1%5D=9'' (Values_Encode (addIndexedIntSlice [] ''tag_ids'' [5, 9]))\<close>
proof -
  have k: \<open>indexed_key ''tag_ids'' (Suc 0) = ''tag_ids[1]''\<close>
    by code_simp
  have e: \<open>QueryEscape ''tag_ids[1]'' = ''tag_ids%5B1%5D''\<close>
    by code_simp
  have v: \<open>Itoa 9 = ''9''\<close>
    by code_simp
  have q: \<open>QueryEscape ''9'' = ''9''\<close>
    by code_simp
  have l: \<open>(1::nat) < length [5, 9 :: int]\<close>
    by simp
  from indexed_filters [of \<open>[5, 9]\<close> \<open>[]\<close> \<open>''tag_ids''\<close>]
  have \<open>1 < length [5, 9 :: int] \<longrightarrow>
          Values_lookup (addIndexedIntSlice [] ''tag_ids'' [5, 9]) (indexed_key ''tag_ids'' 1)
            = [Itoa ([5, 9] ! 1)]
          \<and> sublist (QueryEscape (indexed_key ''tag_ids'' 1) @ ''='' @ QueryEscape (Itoa ([5, 9] ! 1)))
                  (Values_Encode (addIndexedIntSlice [] ''tag_ids'' [5, 9]))\<close>
    by blast
  with l show ?thesis
    by (simp add: k e v q)
qed

theorem indexed_filters_counterexample:
  \<open>\<not> sublist ''tag_ids[0]=5&tag_ids[1]=9''
        (requestURL (NewClient ''key'') ''/api/v1/link/list''
           (Some (addIndexedIntSlice [] ''tag_ids'' [5, 9])))
   \<and> requestURL (NewClient ''key'') ''/api/v1/link/list'' (Some (addIndexedIntSlice [] ''tag_ids'' [5, 9]))
       = ''https://api.t.ly/api/v1/link/list?tag_ids%5B0%5D=5&tag_ids%5B1%5D=9''\<close>
  by code_simp

subsection \<open>Optional fields of request bodies\<close>

lemma keys_field: \<open>map fst (field k j) = [k]\<close>
  by (simp add: field_def)

lemma keys_omitempty_ptr: \<open>map fst (omitempty_ptr k enc p) = (if p = None then [] else [k])\<close>
  by (simp add: omitempty_ptr_def split: option.splits)

lemma keys_omitempty_ints:
  \<open>map fst (omitempty_ints k s) = (if s = None \<or> s = Some [] then [] else [k])\<close>
  by (simp add: omitempty_ints_def split: option.splits)

lemma keys_omitempty_string: \<open>map fst (omitempty_string k s) = (if s = [] then [] else [k])\<close>
  by (simp add: omitempty_string_def)

lemma keys_omitempty_any: \<open>map fst (omitempty_any k a) = (if a = AnyNil then [] else [k])\<close>
  by (simp add: omitempty_any_def split: any_value.splits)

lemma keys_field_any: \<open>map fst (field_any k a) = [k]\<close>
  by (simp add: field_any_def split: any_value.splits)

lemmas keys_simps = map_append keys_field keys_omitempty_ptr keys_omitempty_ints
  keys_omitempty_string keys_omitempty_any keys_field_any

lemma keys_ShortLinkCreateRequest:
  \<open>map fst (ShortLinkCreateRequest_fields r) =
     [''long_url''] @ (if ShortID r = None then [] else [''short_id''])
     @ [''domain''] @ (if ExpireAtDatetime r = None then [] else [''expire_at_datetime''])
     @ (if ExpireAtViews r = None then [] else [''expire_at_views''])
     @ (if Description r = None then [] else [''description''])
     @ (if PublicStats r = None then [] else [''public_stats''])
     @ (if Password r = None then [] else [''password''])
     @ (if Tags r = None \<or> Tags r = Some [] then [] else [''tags''])
     @ (if Pixels r = None \<or> Pixels r = Some [] then [] else [''pixels''])
     @ (if Meta r = AnyNil then [] else [''meta''])\<close>
  unfolding ShortLinkCreateRequest_fields_def by (simp only: keys_simps)

lemma keys_ShortLinkUpdateRequest:
  \<open>map fst (ShortLinkUpdateRequest_fields r) =
     [''short_url''] @ (if ShortID_SU r = None then [] else [''short_id''])
     @ [''long_url''] @ (if ExpireAtDatetime_SU r = None then [] else [''expire_at_datetime''])
     @ (if ExpireAtViews_SU r = None then [] else [''expire_at_views''])
     @ (if Description_SU r = None then [] else [''description''])
     @ (if PublicStats_SU r = None then [] else [''public_stats''])
     @ (if Password_SU r = None then [] else [''password''])
     @ (if Tags_SU r = None \<or> Tags_SU r = Some [] then [] else [''tags''])
     @ (if Pixels_SU r = None \<or> Pixels_SU r = Some [] then [] else [''pixels''])
     @ (if Meta_SU r = AnyNil then [] else [''meta''])\<close>
  unfolding ShortLinkUpdateRequest_fields_def by (simp only: keys_simps)

lemma keys_QRCodeUpdateRequest:
  \<open>map fst (QRCodeUpdateRequest_fields r) =
     [''short_url''] @ (if Image_QU r = None then [] else [''image''])
     @ (if BackgroundColor_QU r = None then [] else [''background_color''])
     @ (if CornerDotsColor_QU r = None then [] else [''corner_dots_color''])
     @ (if DotsColor_QU r = None then [] else [''dots_color''])
     @ (if DotsStyle_QU r = None then [] else [''dots_style''])
     @ (if CornerStyle_QU r = None then [] else [''corner_style''])\<close>
  unfolding QRCodeUpdateRequest_fields_def by (simp only: keys_simps)

lemma keys_BulkShortenRequest:
  \<open>map fst (BulkShortenRequest_fields r) =
     [''domain''] @ [''links'']
     @ (if Tags_BS r = None \<or> Tags_BS r = Some [] then [] else [''tags''])
     @ (if Pixels_BS r = None \<or> Pixels_BS r = Some [] then [] else [''pixels''])\<close>
  unfolding BulkShortenRequest_fields_def by (simp only: keys_simps)

lemma keys_BulkUpdateRequest:
  \<open>map fst (BulkUpdateRequest_fields r) =
     [''links'']
     @ (if Tags_BU r = None \<or> Tags_BU r = Some [] then [] else [''tags''])
     @ (if Pixels_BU r = None \<or> Pixels_BU r = Some [] then [] else [''pixels''])\<close>
  unfolding BulkUpdateRequest_fields_def by (simp only: keys_simps)

lemma keys_BulkShortenLink:
  \<open>map fst (BulkShortenLink_fields r) =
     [''long_url''] @ (if Backhalf_BSL r = None then [] else [''backhalf''])
     @ (if Password_BSL r = None then [] else [''password''])
     @ (if Description_BSL r = None then [] else [''description''])\<close>
  unfolding BulkShortenLink_fields_def by (simp only: keys_simps)

lemma keys_BulkUpdateLink:
  \<open>map fst (BulkUpdateLink_fields r) =
     [''short_url''] @ (if LongURL_BUL r = [] then [] else [''long_url''])
     @ (if Backhalf_BUL r = None then [] else [''backhalf''])
     @ (if Password_BUL r = None then [] else [''password''])
     @ (if Description_BUL r = None then [] else [''description''])\<close>
  unfolding BulkUpdateLink_fields_def by (simp only: keys_simps)

lemma keys_PixelCreateRequest:
  \<open>map fst (PixelCreateRequest_fields r) = [''name'', ''pixel_id'', ''pixel_type'']\<close>
  by (simp add: PixelCreateRequest_fields_def field_def)

lemma keys_PixelUpdateRequest:
  \<open>map fst (PixelUpdateRequest_fields r) = [''id'', ''name'', ''pixel_id'', ''pixel_type'']\<close>
  by (simp add: PixelUpdateRequest_fields_def field_def)

lemma keys_UTMPresetRequest:
  \<open>map fst (UTMPresetRequest_fields r) =
     [''name'', ''source'', ''medium'', ''campaign'', ''content'', ''term'']\<close>
  by (simp add: UTMPresetRequest_fields_def field_def)

lemma marshal_fields_keys: \<open>marshal_fields fs = Inr kvs \<Longrightarrow> map fst kvs = map fst fs\<close>
  by (induction fs arbitrary: kvs) (auto split: sum.splits simp: map_sum_def)

lemma body_json_ShortLinkCreate_keys:
  \<open>body_json (ShortLinkCreateBody r) = Inr (JObject kvs)
     \<Longrightarrow> map fst kvs = map fst (ShortLinkCreateRequest_fields r)\<close>
  by (auto simp: body_json_def marshal_struct_def map_sum_def split: sum.splits
        intro: marshal_fields_keys)

lemma Marshal_example:
  \<open>Marshal (ShortLinkCreateBody example_create) = Inr ''{"long_url":"https://example.com","domain":"t.ly"}''\<close>
  by code_simp

text \<open>
  Claim C5, as the code has it. The members of a serialized request body are the fields
  without \<open>omitempty\<close> and, of the fields with it, those that are not empty; a field
  that is left out has no key in the body (it is not written as \<open>null\<close>). For a pointer
  field and for \<open>Meta\<close> this is field presence: the key is written exactly when the
  field is set, whatever it is set to. For the slices \<open>Tags\<close> and \<open>Pixels\<close> and for
  the string \<open>LongURL\<close> of \<open>BulkUpdateLink\<close> it is the value that decides: the key
  is left out also when the field is set to an empty list or string. The requests for
  pixels and UTM presets have no field with \<open>omitempty\<close>: all their keys are always
  written. The short link request with only \<open>long_url\<close> and \<open>domain\<close> set is
  written with exactly these two keys.
\<close>

theorem omitted_optional_fields:
  \<open>map fst (ShortLinkCreateRequest_fields c) =
     [''long_url''] @ (if ShortID c = None then [] else [''short_id''])
     @ [''domain''] @ (if ExpireAtDatetime c = None then [] else [''expire_at_datetime''])
     @ (if ExpireAtViews c = None then [] else [''expire_at_views''])
     @ (if Description c = None then [] else [''description''])
     @ (if PublicStats c = None then [] else [''public_stats''])
     @ (if Password c = None then [] else [''password''])
     @ (if Tags c = None \<or> Tags c = Some [] then [] else [''tags''])
     @ (if Pixels c = None \<or> Pixels c = Some [] then [] else [''pixels''])
     @ (if Meta c = AnyNil then [] else [''meta''])
   \<and> (\<forall>kvs. body_json (ShortLinkCreateBody c) = Inr (JObject kvs)
          \<longrightarrow> map fst kvs = map fst (ShortLinkCreateRequest_fields c))
   \<and> map fst (ShortLinkUpdateRequest_fields u) =
     [''short_url''] @ (if ShortID_SU u = None then [] else [''short_id''])
     @ [''long_url''] @ (if ExpireAtDatetime_SU u = None then [] else [''expire_at_datetime''])
     @ (if ExpireAtViews_SU u = None then [] else [''expire_at_views''])
     @ (if Description_SU u = None then [] else [''description''])
     @ (if PublicStats_SU u = None then [] else [''public_stats''])
     @ (if Password_SU u = None then [] else [''password''])
     @ (if Tags_SU u = None \<or> Tags_SU u = Some [] then [] else [''tags''])
     @ (if Pixels_SU u = None \<or> Pixels_SU u = Some [] then [] else [''pixels''])
     @ (if Meta_SU u = AnyNil then [] else [''meta''])
   \<and> map fst (QRCodeUpdateRequest_fields qu) =
     [''short_url''] @ (if Image_QU qu = None then [] else [''image''])
     @ (if BackgroundColor_QU qu = None then [] else [''background_color''])
     @ (if CornerDotsColor_QU qu = None then [] else [''corner_dots_color''])
     @ (if DotsColor_QU qu = None then [] else [''dots_color''])
     @ (if DotsStyle_QU qu = None then [] else [''dots_style''])
     @ (if CornerStyle_QU qu = None then [] else [''corner_style''])
   \<and> map fst (BulkShortenRequest_fields bsr) =
     [''domain''] @ [''links'']
     @ (if Tags_BS bsr = None \<or> Tags_BS bsr = Some [] then [] else [''tags''])
     @ (if Pixels_BS bsr = None \<or> Pixels_BS bsr = Some [] then [] else [''pixels''])
   \<and> map fst (BulkUpdateRequest_fields bu) =
     [''links'']
     @ (if Tags_BU bu = None \<or> Tags_BU bu = Some [] then [] else [''tags''])
     @ (if Pixels_BU bu = None \<or> Pixels_BU bu = Some [] then [] else [''pixels''])
   \<and> map fst (BulkShortenLink_fields bsl) =
     [''long_url''] @ (if Backhalf_BSL bsl = None then [] else [''backhalf''])
     @ (if Password_BSL bsl = None then [] else [''password''])
     @ (if Description_BSL bsl = None then [] else [''description''])
   \<and> map fst (BulkUpdateLink_fields bul) =
     [''short_url''] @ (if LongURL_BUL bul = [] then [] else [''long_url''])
     @ (if Backhalf_BUL bul = None then [] else [''backhalf''])
     @ (if Password_BUL bul = None then [] else [''password''])
     @ (if Description_BUL bul = None then [] else [''description''])
   \<and> map fst (PixelCreateRequest_fields pc) = [''name'', ''pixel_id'', ''pixel_type'']
   \<and> map fst (PixelUpdateRequest_fields pu) = [''id'', ''name'', ''pixel_id'', ''pixel_type'']
   \<and> map fst (UTMPresetRequest_fields ur) =
     [''name'', ''source'', ''medium'', ''campaign'', ''content'', ''term'']
   \<and> Marshal (ShortLinkCreateBody example_create)
       = Inr ''{"long_url":"https://example.com","domain":"t.ly"}''\<close>
  by (intro conjI allI impI keys_ShortLinkCreateRequest keys_ShortLinkUpdateRequest
        keys_QRCodeUpdateRequest keys_BulkShortenRequest keys_BulkUpdateRequest
        keys_BulkShortenLink keys_BulkUpdateLink keys_PixelCreateRequest keys_PixelUpdateRequest
        keys_UTMPresetRequest Marshal_example body_json_ShortLinkCreate_keys)

theorem omitted_optional_fields_witness:
  \<open>body_json (ShortLinkCreateBody example_create)
     = Inr (JObject [(''long_url'', JString ''https://example.com''), (''domain'', JString ''t.ly'')])
   \<and> map fst (ShortLinkCreateRequest_fields example_create) = [''long_url'', ''domain'']\<close>
proof -
  have b: \<open>body_json (ShortLinkCreateBody example_create)
      = Inr (JObject [(''long_url'', JString ''https://example.com''), (''domain'', JString ''t.ly'')])\<close>
    by (simp add: body_json_def marshal_struct_def ShortLinkCreateRequest_fields_def
          example_create_def field_def omitempty_ptr_def omitempty_ints_def omitempty_any_def)
  from omitted_optional_fields [of example_create] b
  have \<open>map fst [(''long_url'', JString ''https://example.com''), (''domain'', JString ''t.ly'')]
          = map fst (ShortLinkCreateRequest_fields example_create)\<close>
    by blast
  with b show ?thesis
    by simp
qed

theorem omitted_optional_fields_counterexample:
  \<open>Tags (example_create\<lparr>Tags := Some []\<rparr>) \<noteq> None
   \<and> ''tags'' \<notin> set (map fst (ShortLinkCreateRequest_fields (example_create\<lparr>Tags := Some []\<rparr>)))
   \<and> Marshal (ShortLinkCreateBody (example_create\<lparr>Tags := Some []\<rparr>))
       = Marshal (ShortLinkCreateBody example_create)\<close>
  by code_simp

subsection \<open>Decoding UTM presets\<close>

lemma decode_direct:
  \<open>decodeUTMPreset ''{"id":1,"name":"x"}'' = Inr (UTMPreset_zero\<lparr>ID := 1, Name := ''x''\<rparr>)\<close>
  by code_simp

lemma decode_wrapped_single:
  \<open>decodeUTMPreset ''{"data":{"id":1,"name":"x"}}'' = Inr UTMPreset_zero\<close>
  by code_simp

lemma decode_foo: \<open>decodeUTMPreset ''{"foo":1}'' = Inr UTMPreset_zero\<close>
  by code_simp

lemma decode_wrapped_list:
  \<open>ListUTMPresets_decode ''{"data":[{"id":1,"name":"x"}]}'' = Inr [UTMPreset_zero\<lparr>ID := 1, Name := ''x''\<rparr>]\<close>
  by code_simp

lemma decode_foo_list: \<open>ListUTMPresets_decode ''{"foo":1}'' = Inr []\<close>
  by code_simp

lemma decode_both_fail:
  \<open>decodeUTMPreset ''[1]'' = Inl (Errorf ''unable to decode UTM preset response'')\<close>
  by code_simp

text \<open>
  Claim C1, at its three inputs. \<open>decodeUTMPreset\<close> tries the preset itself and, only
  when that fails, the wrapper. The bytes \<open>{"id":1,"name":"x"}\<close> decode directly.
  json.Unmarshal skips a member that names no field, so the bytes
  \<open>{"data":{"id":1,"name":"x"}}\<close> decode directly, too, into the zero preset: the
  wrapper is never tried and the preset inside \<open>data\<close> is lost. For the same reason
  \<open>{"foo":1}\<close> gives the zero preset and no error. The list decoder does reach the
  wrapper, because an object does not decode into a slice; it returns the presets of
  \<open>data\<close>, and no presets and no error for \<open>{"foo":1}\<close>. Both attempts fail, and
  the error is returned, for bytes such as \<open>[1]\<close>.
\<close>

theorem decodeUTMPreset_examples:
  \<open>decodeUTMPreset ''{"id":1,"name":"x"}'' = Inr (UTMPreset_zero\<lparr>ID := 1, Name := ''x''\<rparr>)
   \<and> decodeUTMPreset ''{"data":{"id":1,"name":"x"}}'' = Inr UTMPreset_zero
   \<and> decodeUTMPreset ''{"foo":1}'' = Inr UTMPreset_zero
   \<and> ListUTMPresets_decode ''{"data":[{"id":1,"name":"x"}]}''
       = Inr [UTMPreset_zero\<lparr>ID := 1, Name := ''x''\<rparr>]
   \<and> ListUTMPresets_decode ''{"foo":1}'' = Inr []
   \<and> decodeUTMPreset ''[1]'' = Inl (Errorf ''unable to decode UTM preset response'')\<close>
  by (intro conjI decode_direct decode_wrapped_single decode_foo decode_wrapped_list
        decode_foo_list decode_both_fail)

subsection \<open>Further properties\<close>

lemma decode_members_unknown:
  \<open>\<forall>kv\<in>set kvs. find_field names (fst kv) = None \<Longrightarrow>
     decode_members setf names kvs p err = (case err of None \<Rightarrow> Inr p | Some e \<Rightarrow> Inl e)\<close>
  by (induction kvs) auto

lemma parse_wrapped:
  \<open>json_parse ''{"data":{"id":7,"name":"spring"}}''
     = Some (JObject [(''data'', JObject [(''id'', JNumber ''7''), (''name'', JString ''spring'')])])\<close>
  by code_simp

lemma find_field_data: \<open>find_field UTMPreset_names ''data'' = None\<close>
  by code_simp

text \<open>
  Whenever the response is a JSON object none of whose members names a
  field of \<open>UTMPreset\<close> (by its exact name or by case folding), \<open>decodeUTMPreset\<close>
  returns the zero preset and no error: the direct attempt succeeds, so the wrapper is
  not tried. A response wrapped in \<open>data\<close> is such an object.
\<close>

theorem decodeUTMPreset_unknown_members:
  assumes \<open>json_parse data = Some (JObject kvs)\<close>
    and \<open>\<forall>kv\<in>set kvs. find_field UTMPreset_names (fst kv) = None\<close>
  shows \<open>decodeUTMPreset data = Inr UTMPreset_zero\<close>
  using assms
  by (simp add: decodeUTMPreset_def Unmarshal_def decode_UTMPreset_def decode_struct_def
        decode_members_unknown)

theorem decodeUTMPreset_unknown_members_witness:
  \<open>json_parse ''{"data":{"id":7,"name":"spring"}}''
     = Some (JObject [(''data'', JObject [(''id'', JNumber ''7''), (''name'', JString ''spring'')])])
   \<and> find_field UTMPreset_names ''data'' = None
   \<and> decodeUTMPreset ''{"data":{"id":7,"name":"spring"}}'' = Inr UTMPreset_zero\<close>
  using decodeUTMPreset_unknown_members [OF parse_wrapped] parse_wrapped find_field_data
  by simp

lemma sort_remdups_set: \<open>set xs = set ys \<Longrightarrow> sort (remdups xs) = sort (remdups ys)\<close>
  by (metis sorted_list_of_set_sort_remdups)

lemma Values_keys_map_of:
  assumes \<open>map_of q = map_of q'\<close>
  shows \<open>Values_keys q = Values_keys q'\<close>
proof -
  have \<open>set (map fst q) = set (map fst q')\<close>
    using assms by (metis dom_map_of_conv_image_fst list.set_map)
  then show ?thesis
    unfolding Values_keys_def by (rule sort_remdups_set)
qed

text \<open>
  The encoded query depends on the query as a map only: two association
  lists that hold the same values under the same keys are encoded alike, in whatever
  order the keys were set. The order of the calls of \<open>Set\<close> in an endpoint method
  therefore never shows in the URL.
\<close>

theorem Values_Encode_map_of:
  \<open>map_of q = map_of q' \<Longrightarrow> Values_Encode q = Values_Encode q'\<close>
  by (simp add: Values_Encode_def Values_pairs_def Values_lookup_def Values_keys_map_of [of q q'])

theorem Values_Encode_map_of_witness:
  \<open>map_of (Values_Set (Values_Set [] ''short_url'' ''u'') ''format'' ''eps'')
     = map_of (Values_Set (Values_Set [] ''format'' ''eps'') ''short_url'' ''u'')
   \<and> Values_Encode (Values_Set (Values_Set [] ''short_url'' ''u'') ''format'' ''eps'')
     = Values_Encode (Values_Set (Values_Set [] ''format'' ''eps'') ''short_url'' ''u'')
   \<and> Values_Encode (Values_Set (Values_Set [] ''format'' ''eps'') ''short_url'' ''u'')
     = ''format=eps&short_url=u''\<close>
proof -
  have m: \<open>map_of (Values_Set (Values_Set [] ''short_url'' ''u'') ''format'' ''eps'')
     = map_of (Values_Set (Values_Set [] ''format'' ''eps'') ''short_url'' ''u'')\<close>
    by (rule ext) simp
  have e: \<open>Values_Encode (Values_Set (Values_Set [] ''format'' ''eps'') ''short_url'' ''u'')
     = ''format=eps&short_url=u''\<close>
    by code_simp
  from Values_Encode_map_of [OF m] m e show ?thesis
    by simp
qed

lemma list_raw:
  \<open>doRequestRaw (answering 200 ''[1]'') (NewClient ''key'') MethodGet ''/api/v1/link/list'' None None
     = (Inr ''[1]'',
        [\<lparr>Method = ''GET'', URL = ''https://api.t.ly/api/v1/link/list'', Header = auth_headers ''key'',
          ReqBody = []\<rparr>])\<close>
  by code_simp

lemma TrimSpace_list: \<open>TrimSpace ''[1]'' = ''[1]''\<close>
  by code_simp

text \<open>
  With a \<open>*[]byte\<close> target and a successful response, \<open>doRequest\<close>
  stores the bytes of the body as they are, unless the body is blank: then the target
  keeps what it held.
\<close>

theorem doRequest_raw_bytes:
  assumes \<open>doRequestRaw h c method path query body = (Inr data, sent)\<close>
  shows \<open>doRequest h unmarshal c method path query body (BytesTarget raw)
           = (Inr (BytesTarget (if length (TrimSpace data) = 0 then raw else data)), sent)\<close>
  using assms by (simp add: doRequest_def is_nil_def)

theorem doRequest_raw_bytes_witness:
  \<open>doRequest (answering 200 ''[1]'') failing_decoder (NewClient ''key'') MethodGet ''/api/v1/link/list''
      None None (BytesTarget [])
     = (Inr (BytesTarget ''[1]''),
        [\<lparr>Method = ''GET'', URL = ''https://api.t.ly/api/v1/link/list'', Header = auth_headers ''key'',
          ReqBody = []\<rparr>])\<close>
  using doRequest_raw_bytes [OF list_raw, of failing_decoder \<open>[]\<close>, unfolded TrimSpace_list]
  by simp

text \<open>
  The pairs of an integer filter stand in the query in the order of their
  keys as strings, which is the input order for up to ten values only: with eleven
  values the pair of index 10 follows the pair of index 0.
\<close>

theorem indexed_pairs_sorted_example:
  \<open>Values_Encode (addIndexedIntSlice [] ''domains'' [1, 2, 3, 4, 5, 6, 7, 8, 9, 10, 11])
     = ''domains%5B0%5D=1&domains%5B10%5D=11&domains%5B1%5D=2&domains%5B2%5D=3&domains%5B3%5D=4&domains%5B4%5D=5&domains%5B5%5D=6&domains%5B6%5D=7&domains%5B7%5D=8&domains%5B8%5D=9&domains%5B9%5D=10''\<close>
  by code_simp

end
